theory Spec2Isabelle
  imports Main
begin

section \<open>The exporter's collectors: repositories, issues and pull requests\<close>

text \<open>
  A shallow embedding of the three collectors of package \<open>exporter\<close>: \<open>RepoCollector\<close>,
  \<open>IssueCollector\<close> (in the two versions the sources hold) and \<open>PullRequestCollector\<close>.
  A collector's \<open>Collect\<close> walks the configured names, asks the API client for records and
  sends one constant metric per field to the channel \<open>ch\<close>.

  What is made explicit:
  \<^item> a Go pointer is an \<open>option\<close>; reading through a nil pointer is the panic
    \<open>NilPointerDereference\<close>, which ends the whole \<open>Collect\<close>;
  \<^item> an API call returns \<open>Inl\<close> of a transport error or \<open>Inr\<close> of its result;
  \<^item> the channel, the failure counter vector and the requests made are the state that
    \<open>Collect\<close> passes along;
  \<^item> the search loop of \<open>reposByOwnerAndName\<close> has no bound in the source, so it is a
    partial function: \<open>None\<close> is a loop that never returns.
  A gauge value is a \<open>float64\<close> converted from an integer in every collector, and is kept
  as that integer. The wall-clock observation of the duration histogram, the logger and
  the context's timeout are not part of the model.
\<close>

subsection \<open>Errors\<close>

datatype panic = NilPointerDereference | InconsistentCardinality

datatype transport_error = TransportError string

definition bind_panic :: "panic + 'a \<Rightarrow> ('a \<Rightarrow> panic + 'b) \<Rightarrow> panic + 'b" where
  "bind_panic m f = (case m of Inl p \<Rightarrow> Inl p | Inr x \<Rightarrow> f x)"

subsection \<open>Go library functions the collectors call\<close>

text \<open>\<open>strings.Split(s, sep)\<close> for a separator of one character.\<close>

fun Split :: "string \<Rightarrow> char \<Rightarrow> string list" where
  "Split [] sep = [[]]"
| "Split (c # cs) sep =
     (if c = sep then [] # Split cs sep
      else (case Split cs sep of [] \<Rightarrow> [[c]] | w # ws \<Rightarrow> (c # w) # ws))"

text \<open>\<open>strings.Contains(s, sub)\<close> for a substring of one character.\<close>

definition Contains :: "string \<Rightarrow> char \<Rightarrow> bool" where
  "Contains s c = (c \<in> set s)"

text \<open>\<open>fmt.Sprint\<close> of an integer: its decimal digits, with a sign when negative.\<close>

definition digit_char :: "nat \<Rightarrow> char" where
  "digit_char d = ''0123456789'' ! d"

function Sprint_nat :: "nat \<Rightarrow> string" where
  "Sprint_nat n =
     (if n < 10 then [digit_char n] else Sprint_nat (n div 10) @ [digit_char (n mod 10)])"
  by pat_completeness auto
termination
  by (relation "measure id") auto

definition Sprint :: "int \<Rightarrow> string" where
  "Sprint i = (if i < 0 then CHR ''-'' # Sprint_nat (nat (- i)) else Sprint_nat (nat i))"

text \<open>\<open>strconv.FormatBool\<close>.\<close>

definition FormatBool :: "bool \<Rightarrow> string" where
  "FormatBool b = (if b then ''true'' else ''false'')"

text \<open>
  Modelled from the spec: \<open>glob.Glob\<close> of package \<open>github.com/ryanuber/go-glob\<close> is
  imported by the repository collector and is not among the sources. The spec describes
  the match as case-sensitive, \<open>*\<close> standing for any run of characters, anchored at
  both ends.
\<close>

fun Glob :: "string \<Rightarrow> string \<Rightarrow> bool" where
  "Glob [] [] = True"
| "Glob [] (c # cs) = False"
| "Glob (p # ps) [] = (p = CHR ''*'' \<and> Glob ps [])"
| "Glob (p # ps) (c # cs) =
     (if p = CHR ''*'' then Glob ps (c # cs) \<or> Glob (p # ps) cs else p = c \<and> Glob ps cs)"

subsection \<open>The records of the API client\<close>

text \<open>
  The types of \<open>github.com/google/go-github/v35\<close> as the collectors use them: every
  field the code compares with \<open>nil\<close> or reads through \<open>*\<close> is a pointer. A time value
  is kept as the two observations made of it, \<open>Unix()\<close> and \<open>String()\<close>.
\<close>

record Time =
  time_Unix :: int
  time_String :: string

record User =
  user_Login :: "string option"

record Label =
  label_Name :: "string option"

record Reactions =
  reactions_TotalCount :: "int option"
  reactions_PlusOne :: "int option"
  reactions_MinusOne :: "int option"

record Repository =
  repo_FullName :: "string option"
  repo_Name :: "string option"
  repo_Fork :: "bool option"
  repo_ForksCount :: "int option"
  repo_NetworkCount :: "int option"
  repo_OpenIssuesCount :: "int option"
  repo_StargazersCount :: "int option"
  repo_SubscribersCount :: "int option"
  repo_WatchersCount :: "int option"
  repo_Size :: "int option"
  repo_AllowRebaseMerge :: "bool option"
  repo_AllowSquashMerge :: "bool option"
  repo_AllowMergeCommit :: "bool option"
  repo_Archived :: "bool option"
  repo_Private :: "bool option"
  repo_HasIssues :: "bool option"
  repo_HasWiki :: "bool option"
  repo_HasPages :: "bool option"
  repo_HasProjects :: "bool option"
  repo_HasDownloads :: "bool option"
  repo_PushedAt :: "Time option"
  repo_CreatedAt :: "Time option"
  repo_UpdatedAt :: "Time option"

record Issue =
  issue_ID :: "int option"
  issue_State :: "string option"
  issue_Locked :: "bool option"
  issue_Title :: "string option"
  issue_Body :: "string option"
  issue_AuthorAssociation :: "string option"
  issue_User :: "User option"
  issue_Labels :: "Label option list"
  issue_Assignee :: "User option"
  issue_Comments :: "int option"
  issue_CreatedAt :: "Time option"
  issue_UpdatedAt :: "Time option"
  issue_URL :: "string option"
  issue_HTMLURL :: "string option"
  issue_Reactions :: "Reactions option"

record PullRequest =
  pr_Number :: "int option"
  pr_State :: "string option"
  pr_Title :: "string option"
  pr_Body :: "string option"
  pr_CreatedAt :: "Time option"
  pr_Labels :: "Label option list"
  pr_User :: "User option"
  pr_Merged :: "bool option"
  pr_Comments :: "int option"
  pr_Commits :: "int option"
  pr_Additions :: "int option"
  pr_Deletions :: "int option"
  pr_ChangedFiles :: "int option"
  pr_HTMLURL :: "string option"
  pr_ReviewComments :: "int option"
  pr_Assignee :: "User option"
  pr_Assignees :: "User option list"
  pr_AuthorAssociation :: "string option"
  pr_RequestedReviewers :: "User option list"

subsection \<open>The API client and the state of a poll\<close>

record SearchOptions =
  opts_Page :: int
  opts_PerPage :: int

record search_response =
  result_Repositories :: "Repository option list"
  resp_NextPage :: int

record Client =
  Search_Repositories :: "string \<Rightarrow> SearchOptions \<Rightarrow> transport_error + search_response"
  Repositories_Get :: "string \<Rightarrow> string \<Rightarrow> transport_error + Repository"
  Issues_ListByRepo :: "string \<Rightarrow> string \<Rightarrow> transport_error + Issue option list"
  PullRequests_List :: "string \<Rightarrow> string \<Rightarrow> transport_error + PullRequest option list"

datatype api_call =
    SearchRepositories string SearchOptions
  | RepositoriesGet string string
  | IssuesListByRepo string string
  | PullRequestsList string string

record Desc =
  fqName :: string
  desc_help :: string
  variableLabels :: "string list"

record sample =
  sample_desc :: Desc
  sample_value :: int
  sample_labels :: "string list"

record collector_state =
  ch :: "sample list"
  failures :: "string \<Rightarrow> nat"
  requests :: "api_call list"

text \<open>\<open>c.failures.WithLabelValues(l).Inc()\<close>.\<close>

definition failures_Inc :: "string \<Rightarrow> collector_state \<Rightarrow> collector_state" where
  "failures_Inc l st = st\<lparr>failures := (failures st)(l := failures st l + 1)\<rparr>"

text \<open>
  \<open>prometheus.MustNewConstMetric\<close>: it panics when the number of label values is not the
  number of the descriptor's variable labels.
\<close>

definition MustNewConstMetric :: "Desc \<Rightarrow> int \<Rightarrow> string list \<Rightarrow> panic + sample" where
  "MustNewConstMetric desc v labelValues =
     (if length labelValues = length (variableLabels desc)
      then Inr \<lparr>sample_desc = desc, sample_value = v, sample_labels = labelValues\<rparr>
      else Inl InconsistentCardinality)"

text \<open>A sequence of sends to the channel: the first panic ends it.\<close>

fun emit_all :: "(panic + sample) list \<Rightarrow> panic + sample list" where
  "emit_all [] = Inr []"
| "emit_all (m # ms) =
     (case m of Inl p \<Rightarrow> Inl p
      | Inr s \<Rightarrow> (case emit_all ms of Inl p \<Rightarrow> Inl p | Inr ss \<Rightarrow> Inr (s # ss)))"

text \<open>\<open>for i, record := range records\<close>, the body sending its metrics.\<close>

fun for_range :: "(int \<Rightarrow> 'a \<Rightarrow> panic + sample list) \<Rightarrow> int \<Rightarrow> 'a list \<Rightarrow> panic + sample list" where
  "for_range body i [] = Inr []"
| "for_range body i (record # rest) =
     (case body i record of Inl p \<Rightarrow> Inl p
      | Inr ms \<Rightarrow> (case for_range body (i + 1) rest of Inl p \<Rightarrow> Inl p | Inr ms' \<Rightarrow> Inr (ms @ ms')))"

subsection \<open>The helpers of the issue collector's file\<close>

definition string_or_empty :: "string option \<Rightarrow> string" where
  "string_or_empty ptr = (case ptr of None \<Rightarrow> '''' | Some s \<Rightarrow> s)"

definition string_int_or_empty :: "int option \<Rightarrow> string" where
  "string_int_or_empty ptr = (case ptr of None \<Rightarrow> '''' | Some i \<Rightarrow> Sprint i)"

definition string_int64_or_empty :: "int option \<Rightarrow> string" where
  "string_int64_or_empty ptr = (case ptr of None \<Rightarrow> '''' | Some i \<Rightarrow> Sprint i)"

definition string_time_or_empty :: "Time option \<Rightarrow> string" where
  "string_time_or_empty ptr = (case ptr of None \<Rightarrow> '''' | Some t \<Rightarrow> time_String t)"

definition string_bool_or_empty :: "bool option \<Rightarrow> string" where
  "string_bool_or_empty ptr = (case ptr of None \<Rightarrow> '''' | Some b \<Rightarrow> FormatBool b)"

definition boolToFloat64 :: "bool \<Rightarrow> int" where
  "boolToFloat64 val = (if val then 1 else 0)"

text \<open>
  The loop over \<open>record.Labels\<close> that both the issue and the pull-request collector run:
  a nil label is skipped, the name of any other is read through its pointer.
\<close>

fun label_names :: "Label option list \<Rightarrow> panic + string list" where
  "label_names [] = Inr []"
| "label_names (git_label # rest) =
     (case git_label of None \<Rightarrow> label_names rest
      | Some l \<Rightarrow>
          (case label_Name l of None \<Rightarrow> Inl NilPointerDereference
           | Some n \<Rightarrow> (case label_names rest of Inl p \<Rightarrow> Inl p | Inr ns \<Rightarrow> Inr (n # ns))))"

text \<open>\<open>if len(record.Labels) > 0 { label = string_or_empty(record.Labels[0].Name) }\<close>.\<close>

definition first_label :: "Label option list \<Rightarrow> panic + string" where
  "first_label ls =
     (case ls of [] \<Rightarrow> Inr ''''
      | l0 # _ \<Rightarrow> (case l0 of None \<Rightarrow> Inl NilPointerDereference
                   | Some l \<Rightarrow> Inr (string_or_empty (label_Name l))))"

text \<open>\<open>if u != nil { login = string_or_empty(u.Login) }\<close>, for the user and the assignee.\<close>

definition login_or_empty :: "User option \<Rightarrow> string" where
  "login_or_empty u = (case u of None \<Rightarrow> '''' | Some usr \<Rightarrow> string_or_empty (user_Login usr))"

subsection \<open>The metric descriptors the constructors register\<close>

text \<open>\<open>NewRepoCollector\<close>: \<open>labels := []string{"owner", "name"}\<close> and one descriptor per metric.\<close>

definition repo_labels :: "string list" where
  "repo_labels = [''owner'', ''name'']"

definition RepoCollector_All :: Desc where
  "RepoCollector_All = \<lparr>fqName = ''github_repo_all'', desc_help = ''All info about github repo'',
     variableLabels = [''forks'', ''network'', ''issues'', ''stargazers'', ''subscribers'',
       ''watchers'', ''size'']\<rparr>"

definition RepoCollector_Pushed :: Desc where
  "RepoCollector_Pushed = \<lparr>fqName = ''github_repo_pushed_timestamp'',
     desc_help = ''Timestamp of the last push to repo'', variableLabels = repo_labels\<rparr>"

definition RepoCollector_Created :: Desc where
  "RepoCollector_Created = \<lparr>fqName = ''github_repo_created_timestamp'',
     desc_help = ''Timestamp of the creation of repo'', variableLabels = repo_labels\<rparr>"

definition RepoCollector_Updated :: Desc where
  "RepoCollector_Updated = \<lparr>fqName = ''github_repo_updated_timestamp'',
     desc_help = ''Timestamp of the last modification of repo'', variableLabels = repo_labels\<rparr>"

definition RepoCollector_Forked :: Desc where
  "RepoCollector_Forked = \<lparr>fqName = ''github_repo_forked'',
     desc_help = ''Show if this repository is a forked repository'', variableLabels = repo_labels\<rparr>"

definition RepoCollector_Forks :: Desc where
  "RepoCollector_Forks = \<lparr>fqName = ''github_repo_forks'',
     desc_help = ''How often has this repository been forked'', variableLabels = repo_labels\<rparr>"

definition RepoCollector_Network :: Desc where
  "RepoCollector_Network = \<lparr>fqName = ''github_repo_network'',
     desc_help = ''Number of repositories in the network'', variableLabels = repo_labels\<rparr>"

definition RepoCollector_Issues :: Desc where
  "RepoCollector_Issues = \<lparr>fqName = ''github_repo_issues'',
     desc_help = ''Number of open issues on this repository'', variableLabels = repo_labels\<rparr>"

definition RepoCollector_Stargazers :: Desc where
  "RepoCollector_Stargazers = \<lparr>fqName = ''github_repo_stargazers'',
     desc_help = ''Number of stargazers on this repository'', variableLabels = repo_labels\<rparr>"

definition RepoCollector_Subscribers :: Desc where
  "RepoCollector_Subscribers = \<lparr>fqName = ''github_repo_subscribers'',
     desc_help = ''Number of subscribers on this repository'', variableLabels = repo_labels\<rparr>"

definition RepoCollector_Watchers :: Desc where
  "RepoCollector_Watchers = \<lparr>fqName = ''github_repo_watchers'',
     desc_help = ''Number of watchers on this repository'', variableLabels = repo_labels\<rparr>"

definition RepoCollector_Size :: Desc where
  "RepoCollector_Size = \<lparr>fqName = ''github_repo_size'',
     desc_help = ''Size of the repository content'', variableLabels = repo_labels\<rparr>"

definition RepoCollector_AllowRebaseMerge :: Desc where
  "RepoCollector_AllowRebaseMerge = \<lparr>fqName = ''github_repo_allow_rebase_merge'',
     desc_help = ''Show if this repository allows rebase merges'', variableLabels = repo_labels\<rparr>"

definition RepoCollector_AllowSquashMerge :: Desc where
  "RepoCollector_AllowSquashMerge = \<lparr>fqName = ''github_repo_allow_squash_merge'',
     desc_help = ''Show if this repository allows squash merges'', variableLabels = repo_labels\<rparr>"

definition RepoCollector_AllowMergeCommit :: Desc where
  "RepoCollector_AllowMergeCommit = \<lparr>fqName = ''github_repo_allow_merge_commit'',
     desc_help = ''Show if this repository allows merge commits'', variableLabels = repo_labels\<rparr>"

definition RepoCollector_Archived :: Desc where
  "RepoCollector_Archived = \<lparr>fqName = ''github_repo_archived'',
     desc_help = ''Show if this repository have been archived'', variableLabels = repo_labels\<rparr>"

definition RepoCollector_Private :: Desc where
  "RepoCollector_Private = \<lparr>fqName = ''github_repo_private'',
     desc_help = ''Show iof this repository is private'', variableLabels = repo_labels\<rparr>"

definition RepoCollector_HasIssues :: Desc where
  "RepoCollector_HasIssues = \<lparr>fqName = ''github_repo_has_issues'',
     desc_help = ''Show if this repository got issues enabled'', variableLabels = repo_labels\<rparr>"

definition RepoCollector_HasWiki :: Desc where
  "RepoCollector_HasWiki = \<lparr>fqName = ''github_repo_has_wiki'',
     desc_help = ''Show if this repository got wiki enabled'', variableLabels = repo_labels\<rparr>"

definition RepoCollector_HasPages :: Desc where
  "RepoCollector_HasPages = \<lparr>fqName = ''github_repo_has_pages'',
     desc_help = ''Show if this repository got pages enabled'', variableLabels = repo_labels\<rparr>"

definition RepoCollector_HasProjects :: Desc where
  "RepoCollector_HasProjects = \<lparr>fqName = ''github_repo_has_projects'',
     desc_help = ''Show if this repository got projects enabled'', variableLabels = repo_labels\<rparr>"

definition RepoCollector_HasDownloads :: Desc where
  "RepoCollector_HasDownloads = \<lparr>fqName = ''github_repo_has_downloads'',
     desc_help = ''Show if this repository got downloads enabled'', variableLabels = repo_labels\<rparr>"

text \<open>\<open>NewIssueCollector\<close>, the descriptor both versions of the file send.\<close>

definition IssueCollector_All :: Desc where
  "IssueCollector_All = \<lparr>fqName = ''github_issues_all'', desc_help = ''All info about github issues'',
     variableLabels = [''id'', ''status'', ''locked'', ''title'', ''body'', ''user'',
       ''author_association'', ''label'', ''num_comments'', ''created_at'', ''updated_at'', ''url'',
       ''html_url'', ''reactions_total'', ''reactions_plus_one'', ''reactions_minus_one'',
       ''assignee'']\<rparr>"

text \<open>\<open>NewPullRequestCollector\<close>.\<close>

definition PullRequestCollector_All :: Desc where
  "PullRequestCollector_All = \<lparr>fqName = ''github_pull_requests_all'',
     desc_help = ''All info about github pull requests'',
     variableLabels = [''number'', ''state'', ''title'', ''body'', ''created_at'', ''labels'', ''user'',
       ''merged'', ''comments'', ''commits'', ''additions'', ''deletions'', ''changed_files'',
       ''html_url'', ''review_comments'', ''assignee'', ''assignees'', ''author_association'',
       ''requested_reviewers'']\<rparr>"

subsection \<open>Resolution of a name: \<open>reposByOwnerAndName\<close>\<close>

text \<open>
  The \<open>for\<close> loop over the pages of the search. Its state is \<open>opts.Page\<close> and the
  slice \<open>repos\<close>; the requests made are collected beside them. The loop leaves by the
  \<open>return nil, err\<close> of a failed call or by the \<open>break\<close> at \<open>resp.NextPage == 0\<close>.
\<close>

partial_function (option) search_loop ::
  "Client \<Rightarrow> string \<Rightarrow> SearchOptions \<Rightarrow> Repository option list \<Rightarrow> api_call list \<Rightarrow>
   ((transport_error + Repository option list) \<times> api_call list) option" where
  "search_loop c query opts repos calls =
     (case Search_Repositories c query opts of
        Inl err \<Rightarrow> Some (Inl err, calls @ [SearchRepositories query opts])
      | Inr resp \<Rightarrow>
          if resp_NextPage resp = 0
          then Some (Inr (repos @ result_Repositories resp), calls @ [SearchRepositories query opts])
          else search_loop c query (opts\<lparr>opts_Page := resp_NextPage resp\<rparr>)
                 (repos @ result_Repositories resp) (calls @ [SearchRepositories query opts]))"

declare search_loop.simps [code]

text \<open>
  The three collector files define the same method \<open>reposByOwnerAndName\<close>; only
  \<open>RepoCollector.Collect\<close> calls it. It returns the records or the transport error,
  here together with the requests it made.
\<close>

definition reposByOwnerAndName ::
  "Client \<Rightarrow> string \<Rightarrow> string \<Rightarrow> ((transport_error + Repository option list) \<times> api_call list) option" where
  "reposByOwnerAndName c owner repo =
     (if Contains repo CHR ''*''
      then search_loop c (''user:'' @ owner) \<lparr>opts_Page = 0, opts_PerPage = 50\<rparr> [] []
      else (case Repositories_Get c owner repo of
              Inl err \<Rightarrow> Some (Inl err, [RepositoriesGet owner repo])
            | Inr res \<Rightarrow> Some (Inr [Some res], [RepositoriesGet owner repo])))"

subsection \<open>\<open>RepoCollector.Collect\<close>\<close>

text \<open>
  \<open>if record.F != nil { ch <- MustNewConstMetric(desc, GaugeValue, v(*record.F), labels...) }\<close>
  for a flag and for a count, and the unguarded
  \<open>ch <- MustNewConstMetric(desc, GaugeValue, float64(record.T.Unix()), labels...)\<close>.
\<close>

definition gauge_if_bool :: "bool option \<Rightarrow> Desc \<Rightarrow> string list \<Rightarrow> (panic + sample) list" where
  "gauge_if_bool field desc labels =
     (case field of None \<Rightarrow> [] | Some b \<Rightarrow> [MustNewConstMetric desc (boolToFloat64 b) labels])"

definition gauge_if_int :: "int option \<Rightarrow> Desc \<Rightarrow> string list \<Rightarrow> (panic + sample) list" where
  "gauge_if_int field desc labels =
     (case field of None \<Rightarrow> [] | Some n \<Rightarrow> [MustNewConstMetric desc n labels])"

definition gauge_time :: "Time option \<Rightarrow> Desc \<Rightarrow> string list \<Rightarrow> panic + sample" where
  "gauge_time field desc labels =
     (case field of None \<Rightarrow> Inl NilPointerDereference
      | Some t \<Rightarrow> MustNewConstMetric desc (time_Unix t) labels)"

text \<open>\<open>if record.F != nil { v = string_int_or_empty(record.F) ... }\<close>, \<open>v\<close> starting empty.\<close>

definition count_label :: "int option \<Rightarrow> string" where
  "count_label field = (if field \<noteq> None then string_int_or_empty field else '''')"

text \<open>The body of \<open>for i, record := range records\<close>.\<close>

definition RepoCollector_record :: "string \<Rightarrow> string \<Rightarrow> int \<Rightarrow> Repository option \<Rightarrow> panic + sample list" where
  "RepoCollector_record name owner i rec =
     (case rec of None \<Rightarrow> Inl NilPointerDereference
      | Some record \<Rightarrow>
     (case repo_FullName record of None \<Rightarrow> Inl NilPointerDereference
      | Some full_name \<Rightarrow>
     if \<not> Glob name full_name then Inr []
     else
     (case repo_Name record of None \<Rightarrow> Inl NilPointerDereference
      | Some record_name \<Rightarrow>
     let labels = [owner, record_name];
         forks = count_label (repo_ForksCount record);
         networks = count_label (repo_NetworkCount record);
         issues = count_label (repo_OpenIssuesCount record);
         stargazers = count_label (repo_StargazersCount record);
         subscribers = count_label (repo_SubscribersCount record);
         watchers = count_label (repo_WatchersCount record);
         size = count_label (repo_Size record)
     in emit_all
          (gauge_if_bool (repo_Fork record) RepoCollector_Forked labels @
           gauge_if_int (repo_ForksCount record) RepoCollector_Forks labels @
           gauge_if_int (repo_NetworkCount record) RepoCollector_Network labels @
           gauge_if_int (repo_OpenIssuesCount record) RepoCollector_Issues labels @
           gauge_if_int (repo_StargazersCount record) RepoCollector_Stargazers labels @
           gauge_if_int (repo_SubscribersCount record) RepoCollector_Subscribers labels @
           gauge_if_int (repo_WatchersCount record) RepoCollector_Watchers labels @
           gauge_if_int (repo_Size record) RepoCollector_Size labels @
           gauge_if_bool (repo_AllowRebaseMerge record) RepoCollector_AllowRebaseMerge labels @
           gauge_if_bool (repo_AllowSquashMerge record) RepoCollector_AllowSquashMerge labels @
           gauge_if_bool (repo_AllowMergeCommit record) RepoCollector_AllowMergeCommit labels @
           gauge_if_bool (repo_Archived record) RepoCollector_Archived labels @
           gauge_if_bool (repo_Private record) RepoCollector_Private labels @
           gauge_if_bool (repo_HasIssues record) RepoCollector_HasIssues labels @
           gauge_if_bool (repo_HasWiki record) RepoCollector_HasWiki labels @
           gauge_if_bool (repo_HasPages record) RepoCollector_HasPages labels @
           gauge_if_bool (repo_HasProjects record) RepoCollector_HasProjects labels @
           gauge_if_bool (repo_HasDownloads record) RepoCollector_HasDownloads labels @
           [gauge_time (repo_PushedAt record) RepoCollector_Pushed labels,
            gauge_time (repo_CreatedAt record) RepoCollector_Created labels,
            gauge_time (repo_UpdatedAt record) RepoCollector_Updated labels,
            MustNewConstMetric RepoCollector_All i
              [forks, networks, issues, stargazers, subscribers, watchers, size]]))))"

text \<open>The body of \<open>for _, name := range c.config.Repos.Value()\<close>.\<close>

definition RepoCollector_target :: "Client \<Rightarrow> string \<Rightarrow> collector_state \<Rightarrow> (panic + collector_state) option" where
  "RepoCollector_target c name st =
     (let n = Split name CHR ''/'' in
      if length n \<noteq> 2 then Some (Inr (failures_Inc ''repo'' st))
      else
        let owner = n ! 0; repo = n ! 1 in
        (case reposByOwnerAndName c owner repo of
           None \<Rightarrow> None
         | Some (res, calls) \<Rightarrow>
             let st1 = st\<lparr>requests := requests st @ calls\<rparr> in
             (case res of
                Inl err \<Rightarrow> Some (Inr (failures_Inc ''repo'' st1))
              | Inr records \<Rightarrow>
                  (case for_range (RepoCollector_record name owner) 0 records of
                     Inl p \<Rightarrow> Some (Inl p)
                   | Inr ms \<Rightarrow> Some (Inr (st1\<lparr>ch := ch st1 @ ms\<rparr>))))))"

fun RepoCollector_Collect :: "Client \<Rightarrow> string list \<Rightarrow> collector_state \<Rightarrow> (panic + collector_state) option" where
  "RepoCollector_Collect c [] st = Some (Inr st)"
| "RepoCollector_Collect c (name # names) st =
     (case RepoCollector_target c name st of
        None \<Rightarrow> None
      | Some (Inl p) \<Rightarrow> Some (Inl p)
      | Some (Inr st') \<Rightarrow> RepoCollector_Collect c names st')"

subsection \<open>\<open>IssueCollector.Collect\<close>, file \<open>pkg/exporter/issues.go\<close>\<close>

text \<open>
  The body of \<open>for i, record := range issues\<close>. This version reads \<open>record.ID\<close> with no
  test of \<open>record\<close> and sends two empty strings for the timestamps.
\<close>

definition IssueCollector_record :: "int \<Rightarrow> Issue option \<Rightarrow> panic + sample list" where
  "IssueCollector_record i rec =
     (case rec of None \<Rightarrow> Inl NilPointerDereference
      | Some record \<Rightarrow>
     let id = string_int64_or_empty (issue_ID record);
         locked = (case issue_Locked record of None \<Rightarrow> ''''
                   | Some l \<Rightarrow> if \<not> l then ''false'' else ''true'')
     in
     bind_panic (label_names (issue_Labels record)) (\<lambda>labels.
     bind_panic (first_label (issue_Labels record)) (\<lambda>label.
     let assignee = login_or_empty (issue_Assignee record);
         user = login_or_empty (issue_User record)
     in
     (case issue_Reactions record of None \<Rightarrow> Inl NilPointerDereference
      | Some reactions \<Rightarrow>
     emit_all
       [MustNewConstMetric IssueCollector_All i
          [id,
           string_or_empty (issue_State record),
           locked,
           string_or_empty (issue_Title record),
           string_or_empty (issue_Body record),
           user,
           string_or_empty (issue_AuthorAssociation record),
           label,
           string_int_or_empty (issue_Comments record),
           '''',
           '''',
           string_or_empty (issue_URL record),
           string_or_empty (issue_HTMLURL record),
           string_int_or_empty (reactions_TotalCount reactions),
           string_int_or_empty (reactions_PlusOne reactions),
           string_int_or_empty (reactions_MinusOne reactions),
           assignee]]))))"

definition IssueCollector_target :: "Client \<Rightarrow> string \<Rightarrow> collector_state \<Rightarrow> panic + collector_state" where
  "IssueCollector_target c name st =
     (let n = Split name CHR ''/'' in
      if length n \<noteq> 2 then Inr (failures_Inc ''repo'' st)
      else
        let owner = n ! 0; repo = n ! 1;
            st1 = st\<lparr>requests := requests st @ [IssuesListByRepo owner repo]\<rparr>
        in
        (case Issues_ListByRepo c owner repo of
           Inl err \<Rightarrow> Inr (failures_Inc ''repo'' st1)
         | Inr issues \<Rightarrow>
             (case for_range IssueCollector_record 0 issues of
                Inl p \<Rightarrow> Inl p
              | Inr ms \<Rightarrow> Inr (st1\<lparr>ch := ch st1 @ ms\<rparr>))))"

fun IssueCollector_Collect :: "Client \<Rightarrow> string list \<Rightarrow> collector_state \<Rightarrow> panic + collector_state" where
  "IssueCollector_Collect c [] st = Inr st"
| "IssueCollector_Collect c (name # names) st =
     (case IssueCollector_target c name st of
        Inl p \<Rightarrow> Inl p
      | Inr st' \<Rightarrow> IssueCollector_Collect c names st')"

subsection \<open>\<open>IssueCollector.Collect\<close>, the version of the unnamed source file\<close>

text \<open>
  This version skips a nil \<open>record\<close> and renders the two timestamps with
  \<open>string_time_or_empty\<close>; the rest of the body is the same.
\<close>

definition IssueCollector_record_v2 :: "int \<Rightarrow> Issue option \<Rightarrow> panic + sample list" where
  "IssueCollector_record_v2 i rec =
     (case rec of None \<Rightarrow> Inr []
      | Some record \<Rightarrow>
     let id = string_int64_or_empty (issue_ID record);
         locked = (case issue_Locked record of None \<Rightarrow> ''''
                   | Some l \<Rightarrow> if \<not> l then ''false'' else ''true'')
     in
     bind_panic (label_names (issue_Labels record)) (\<lambda>labels.
     bind_panic (first_label (issue_Labels record)) (\<lambda>label.
     let assignee = login_or_empty (issue_Assignee record);
         user = login_or_empty (issue_User record)
     in
     (case issue_Reactions record of None \<Rightarrow> Inl NilPointerDereference
      | Some reactions \<Rightarrow>
     emit_all
       [MustNewConstMetric IssueCollector_All i
          [id,
           string_or_empty (issue_State record),
           locked,
           string_or_empty (issue_Title record),
           string_or_empty (issue_Body record),
           user,
           string_or_empty (issue_AuthorAssociation record),
           label,
           string_int_or_empty (issue_Comments record),
           string_time_or_empty (issue_CreatedAt record),
           string_time_or_empty (issue_UpdatedAt record),
           string_or_empty (issue_URL record),
           string_or_empty (issue_HTMLURL record),
           string_int_or_empty (reactions_TotalCount reactions),
           string_int_or_empty (reactions_PlusOne reactions),
           string_int_or_empty (reactions_MinusOne reactions),
           assignee]]))))"

definition IssueCollector_target_v2 :: "Client \<Rightarrow> string \<Rightarrow> collector_state \<Rightarrow> panic + collector_state" where
  "IssueCollector_target_v2 c name st =
     (let n = Split name CHR ''/'' in
      if length n \<noteq> 2 then Inr (failures_Inc ''repo'' st)
      else
        let owner = n ! 0; repo = n ! 1;
            st1 = st\<lparr>requests := requests st @ [IssuesListByRepo owner repo]\<rparr>
        in
        (case Issues_ListByRepo c owner repo of
           Inl err \<Rightarrow> Inr (failures_Inc ''repo'' st1)
         | Inr issues \<Rightarrow>
             (case for_range IssueCollector_record_v2 0 issues of
                Inl p \<Rightarrow> Inl p
              | Inr ms \<Rightarrow> Inr (st1\<lparr>ch := ch st1 @ ms\<rparr>))))"

fun IssueCollector_Collect_v2 :: "Client \<Rightarrow> string list \<Rightarrow> collector_state \<Rightarrow> panic + collector_state" where
  "IssueCollector_Collect_v2 c [] st = Inr st"
| "IssueCollector_Collect_v2 c (name # names) st =
     (case IssueCollector_target_v2 c name st of
        Inl p \<Rightarrow> Inl p
      | Inr st' \<Rightarrow> IssueCollector_Collect_v2 c names st')"

subsection \<open>\<open>PullRequestCollector.Collect\<close>\<close>

text \<open>
  The body of \<open>for i, record := range pullRequests\<close>. The values sent for the labels
  \<open>assignees\<close> and \<open>requested_reviewers\<close> are the literal \<open>""\<close>.
\<close>

definition PullRequestCollector_record :: "int \<Rightarrow> PullRequest option \<Rightarrow> panic + sample list" where
  "PullRequestCollector_record i rec =
     (case rec of None \<Rightarrow> Inr []
      | Some record \<Rightarrow>
     bind_panic (label_names (pr_Labels record)) (\<lambda>labels.
     bind_panic (first_label (pr_Labels record)) (\<lambda>label.
     let assignee = login_or_empty (pr_Assignee record);
         user = login_or_empty (pr_User record);
         number = (if pr_Number record \<noteq> None then string_int_or_empty (pr_Number record) else '''');
         state = (if pr_State record \<noteq> None then string_or_empty (pr_State record) else '''');
         title = (if pr_Title record \<noteq> None then string_or_empty (pr_Title record) else '''');
         merged = (if pr_Merged record \<noteq> None then string_bool_or_empty (pr_Merged record) else '''')
     in
     emit_all
       [MustNewConstMetric PullRequestCollector_All i
          [number,
           state,
           title,
           string_or_empty (pr_Body record),
           string_time_or_empty (pr_CreatedAt record),
           label,
           user,
           merged,
           string_int_or_empty (pr_Comments record),
           string_int_or_empty (pr_Commits record),
           string_int_or_empty (pr_Additions record),
           string_int_or_empty (pr_Deletions record),
           string_int_or_empty (pr_ChangedFiles record),
           string_or_empty (pr_HTMLURL record),
           string_int_or_empty (pr_ReviewComments record),
           assignee,
           '''',
           string_or_empty (pr_AuthorAssociation record),
           '''']])))"

definition PullRequestCollector_target :: "Client \<Rightarrow> string \<Rightarrow> collector_state \<Rightarrow> panic + collector_state" where
  "PullRequestCollector_target c name st =
     (let n = Split name CHR ''/'' in
      if length n \<noteq> 2 then Inr (failures_Inc ''repo'' st)
      else
        let owner = n ! 0; repo = n ! 1;
            st1 = st\<lparr>requests := requests st @ [PullRequestsList owner repo]\<rparr>
        in
        (case PullRequests_List c owner repo of
           Inl err \<Rightarrow> Inr (failures_Inc ''repo'' st1)
         | Inr pullRequests \<Rightarrow>
             (case for_range PullRequestCollector_record 0 pullRequests of
                Inl p \<Rightarrow> Inl p
              | Inr ms \<Rightarrow> Inr (st1\<lparr>ch := ch st1 @ ms\<rparr>))))"

fun PullRequestCollector_Collect :: "Client \<Rightarrow> string list \<Rightarrow> collector_state \<Rightarrow> panic + collector_state" where
  "PullRequestCollector_Collect c [] st = Inr st"
| "PullRequestCollector_Collect c (name # names) st =
     (case PullRequestCollector_target c name st of
        Inl p \<Rightarrow> Inl p
      | Inr st' \<Rightarrow> PullRequestCollector_Collect c names st')"

subsection \<open>Observations on samples and requests\<close>

text \<open>The value a sample carries for a label of its descriptor, if the label is there.\<close>

definition label_value :: "sample \<Rightarrow> string \<Rightarrow> string option" where
  "label_value s l = map_of (zip (variableLabels (sample_desc s)) (sample_labels s)) l"

text \<open>The login of a user is absent: there is no user, or the user has no login.\<close>

definition login_absent :: "User option \<Rightarrow> bool" where
  "login_absent u = (case u of None \<Rightarrow> True | Some usr \<Rightarrow> user_Login usr = None)"

text \<open>The answer of the client to a request is an error.\<close>

fun call_failed :: "Client \<Rightarrow> api_call \<Rightarrow> bool" where
  "call_failed c (SearchRepositories query opts) = isl (Search_Repositories c query opts)"
| "call_failed c (RepositoriesGet owner repo) = isl (Repositories_Get c owner repo)"
| "call_failed c (IssuesListByRepo owner repo) = isl (Issues_ListByRepo c owner repo)"
| "call_failed c (PullRequestsList owner repo) = isl (PullRequests_List c owner repo)"

text \<open>
  The repositories a run of the repository collector reports on: the \<open>owner\<close> and
  \<open>name\<close> label values of its \<open>github_repo_pushed_timestamp\<close> samples, one per record
  that reaches the end of the loop body.
\<close>

definition reported_repos :: "sample list \<Rightarrow> string list list" where
  "reported_repos ms = map sample_labels (filter (\<lambda>s. sample_desc s = RepoCollector_Pushed) ms)"

text \<open>
  The spec's words for glob resolution: those of the returned repositories whose full
  name matches the pattern.
\<close>

definition full_name_matches :: "string \<Rightarrow> Repository \<Rightarrow> bool" where
  "full_name_matches pattern r = (case repo_FullName r of None \<Rightarrow> False | Some f \<Rightarrow> Glob pattern f)"

definition matching_repos :: "string \<Rightarrow> string \<Rightarrow> Repository option list \<Rightarrow> string list list" where
  "matching_repos pattern owner records =
     map (\<lambda>r. [owner, string_or_empty (repo_Name r)])
       (filter (full_name_matches pattern) (List.map_filter id records))"

text \<open>The samples of a finished poll, whatever its other effects.\<close>

definition samples_of :: "panic + collector_state \<Rightarrow> panic + sample list" where
  "samples_of r = map_sum id ch r"

subsection \<open>Example inputs\<close>

definition nil_Issue :: Issue where
  "nil_Issue = \<lparr>issue_ID = None, issue_State = None, issue_Locked = None, issue_Title = None,
     issue_Body = None, issue_AuthorAssociation = None, issue_User = None, issue_Labels = [],
     issue_Assignee = None, issue_Comments = None, issue_CreatedAt = None, issue_UpdatedAt = None,
     issue_URL = None, issue_HTMLURL = None, issue_Reactions = None\<rparr>"

definition nil_PullRequest :: PullRequest where
  "nil_PullRequest = \<lparr>pr_Number = None, pr_State = None, pr_Title = None, pr_Body = None,
     pr_CreatedAt = None, pr_Labels = [], pr_User = None, pr_Merged = None, pr_Comments = None,
     pr_Commits = None, pr_Additions = None, pr_Deletions = None, pr_ChangedFiles = None,
     pr_HTMLURL = None, pr_ReviewComments = None, pr_Assignee = None, pr_Assignees = [],
     pr_AuthorAssociation = None, pr_RequestedReviewers = []\<rparr>"

definition nil_Repository :: Repository where
  "nil_Repository = \<lparr>repo_FullName = None, repo_Name = None, repo_Fork = None,
     repo_ForksCount = None, repo_NetworkCount = None, repo_OpenIssuesCount = None,
     repo_StargazersCount = None, repo_SubscribersCount = None, repo_WatchersCount = None,
     repo_Size = None, repo_AllowRebaseMerge = None, repo_AllowSquashMerge = None,
     repo_AllowMergeCommit = None, repo_Archived = None, repo_Private = None,
     repo_HasIssues = None, repo_HasWiki = None, repo_HasPages = None, repo_HasProjects = None,
     repo_HasDownloads = None, repo_PushedAt = None, repo_CreatedAt = None,
     repo_UpdatedAt = None\<rparr>"

text \<open>
  An issue with an id, an assignee without login and a reactions object without counts;
  every other optional field is absent.
\<close>

definition bare_Issue :: Issue where
  "bare_Issue = nil_Issue\<lparr>issue_ID := Some 42,
     issue_Assignee := Some \<lparr>user_Login = None\<rparr>, issue_Reactions := Some
     \<lparr>reactions_TotalCount = None, reactions_PlusOne = None, reactions_MinusOne = None\<rparr>\<rparr>"

text \<open>A pull request that has an assignee list and a requested reviewer.\<close>

definition reviewed_PullRequest :: PullRequest where
  "reviewed_PullRequest = nil_PullRequest\<lparr>pr_Number := Some 7, pr_Title := Some ''Fix'',
     pr_Assignees := [Some \<lparr>user_Login = Some ''ann''\<rparr>],
     pr_RequestedReviewers := [Some \<lparr>user_Login = Some ''bob''\<rparr>]\<rparr>"

definition epoch :: Time where
  "epoch = \<lparr>time_Unix = 0, time_String = ''1970-01-01 00:00:00 +0000 UTC''\<rparr>"

definition acme_repo :: "string \<Rightarrow> Repository" where
  "acme_repo n = nil_Repository\<lparr>repo_FullName := Some (''acme/'' @ n), repo_Name := Some n,
     repo_ForksCount := Some 3, repo_PushedAt := Some epoch,
     repo_CreatedAt := Some epoch, repo_UpdatedAt := Some epoch\<rparr>"

text \<open>The samples the repository collector sends for \<open>acme_repo n\<close> at position \<open>i\<close>.\<close>

definition acme_repo_metrics :: "string \<Rightarrow> int \<Rightarrow> sample list" where
  "acme_repo_metrics n i =
     [\<lparr>sample_desc = RepoCollector_Forks, sample_value = 3, sample_labels = [''acme'', n]\<rparr>,
      \<lparr>sample_desc = RepoCollector_Pushed, sample_value = 0, sample_labels = [''acme'', n]\<rparr>,
      \<lparr>sample_desc = RepoCollector_Created, sample_value = 0, sample_labels = [''acme'', n]\<rparr>,
      \<lparr>sample_desc = RepoCollector_Updated, sample_value = 0, sample_labels = [''acme'', n]\<rparr>,
      \<lparr>sample_desc = RepoCollector_All, sample_value = i,
         sample_labels = [''3'', '''', '''', '''', '''', '''', '''']\<rparr>]"

definition not_found :: transport_error where
  "not_found = TransportError ''404 Not Found''"

text \<open>
  A client for the owner \<open>acme\<close> with the repositories \<open>auth-service\<close>, \<open>web\<close> and
  \<open>pay-service\<close>; only \<open>acme/web\<close> can be fetched and listed by name.
\<close>

definition acme_client :: Client where
  "acme_client = \<lparr>
     Search_Repositories = (\<lambda>query opts.
       if query = ''user:acme''
       then Inr \<lparr>result_Repositories = [Some (acme_repo ''auth-service''), Some (acme_repo ''web''),
                   Some (acme_repo ''pay-service'')], resp_NextPage = 0\<rparr>
       else Inl not_found),
     Repositories_Get = (\<lambda>owner repo.
       if owner = ''acme'' \<and> repo = ''web'' then Inr (acme_repo ''web'') else Inl not_found),
     Issues_ListByRepo = (\<lambda>owner repo.
       if owner = ''acme'' \<and> repo = ''web'' then Inr [Some bare_Issue] else Inl not_found),
     PullRequests_List = (\<lambda>owner repo.
       if owner = ''acme'' \<and> repo = ''web'' then Inr [Some reviewed_PullRequest] else Inl not_found)\<rparr>"

text \<open>The same owner served in two pages: page 0 names page 2 as the next one.\<close>

definition paged_client :: Client where
  "paged_client = acme_client\<lparr>
     Search_Repositories := (\<lambda>query opts.
       if opts_Page opts = 0
       then Inr \<lparr>result_Repositories = [Some (acme_repo ''auth-service'')], resp_NextPage = 2\<rparr>
       else if opts_Page opts = 2
       then Inr \<lparr>result_Repositories = [Some (acme_repo ''web''), Some (acme_repo ''pay-service'')],
                  resp_NextPage = 0\<rparr>
       else Inl not_found)\<rparr>"

text \<open>The pages that \<open>paged_client\<close> is asked for, and what each holds.\<close>

definition paged_pg :: "nat \<Rightarrow> int" where
  "paged_pg j = (if j = 0 then 0 else if j = 1 then 2 else 0)"

definition paged_rs :: "nat \<Rightarrow> Repository option list" where
  "paged_rs j =
     (if j = 0 then [Some (acme_repo ''auth-service'')]
      else [Some (acme_repo ''web''), Some (acme_repo ''pay-service'')])"

text \<open>A search that fails on its second page.\<close>

definition broken_client :: Client where
  "broken_client = acme_client\<lparr>
     Search_Repositories := (\<lambda>query opts.
       if opts_Page opts = 0
       then Inr \<lparr>result_Repositories = [Some (acme_repo ''auth-service'')], resp_NextPage = 2\<rparr>
       else Inl not_found)\<rparr>"

text \<open>The samples of \<open>bare_Issue\<close> and of \<open>nil_PullRequest\<close>.\<close>

definition bare_Issue_metric :: sample where
  "bare_Issue_metric = \<lparr>sample_desc = IssueCollector_All, sample_value = 0, sample_labels =
     [''42'', '''', '''', '''', '''', '''', '''', '''', '''', '''', '''', '''', '''', '''',
      '''', '''', '''']\<rparr>"

definition nil_PullRequest_metric :: sample where
  "nil_PullRequest_metric = \<lparr>sample_desc = PullRequestCollector_All, sample_value = 0,
     sample_labels =
     ['''', '''', '''', '''', '''', '''', '''', '''', '''', '''', '''', '''', '''', '''',
      '''', '''', '''', '''', '''']\<rparr>"

text \<open>The sample of \<open>reviewed_PullRequest\<close>.\<close>

definition reviewed_PullRequest_metric :: sample where
  "reviewed_PullRequest_metric = \<lparr>sample_desc = PullRequestCollector_All, sample_value = 0,
     sample_labels =
     [''7'', '''', ''Fix'', '''', '''', '''', '''', '''', '''', '''', '''', '''', '''', '''',
      '''', '''', '''', '''', '''']\<rparr>"

definition poll_start :: collector_state where
  "poll_start = \<lparr>ch = [], failures = (\<lambda>l. 0), requests = []\<rparr>"

section \<open>Properties\<close>

subsection \<open>Auxiliary facts\<close>

lemma or_empty_None [simp]:
  "string_or_empty None = ''''" "string_int_or_empty None = ''''"
  "string_int64_or_empty None = ''''" "string_time_or_empty None = ''''"
  "string_bool_or_empty None = ''''" "login_or_empty None = ''''"
  by (simp_all add: string_or_empty_def string_int_or_empty_def string_int64_or_empty_def
      string_time_or_empty_def string_bool_or_empty_def login_or_empty_def)

lemma login_or_empty_absent [simp]: "login_absent u \<Longrightarrow> login_or_empty u = ''''"
  by (simp add: login_absent_def login_or_empty_def string_or_empty_def split: option.splits)

lemma first_label_Nil [simp]: "first_label [] = Inr ''''"
  by (simp add: first_label_def)

lemma MustNewConstMetric_Inr:
  "MustNewConstMetric d v ls = Inr s \<Longrightarrow>
     sample_desc s = d \<and> sample_value s = v \<and> sample_labels s = ls \<and>
     length ls = length (variableLabels d)"
  by (auto simp: MustNewConstMetric_def split: if_splits)

lemmas example_defs = nil_Issue_def nil_PullRequest_def nil_Repository_def bare_Issue_def
  reviewed_PullRequest_def epoch_def acme_repo_def not_found_def acme_client_def paged_client_def
  broken_client_def poll_start_def bare_Issue_metric_def nil_PullRequest_metric_def

subsection \<open>The labels of the pull-request metric\<close>

lemma reviewed_PullRequest_sample:
  "PullRequestCollector_record 0 (Some reviewed_PullRequest) =
     Inr [\<lparr>sample_desc = PullRequestCollector_All, sample_value = 0, sample_labels =
       [''7'', '''', ''Fix'', '''', '''', '''', '''', '''', '''', '''', '''', '''', '''', '''',
        '''', '''', '''', '''', '''']\<rparr>]"
  by (simp add: PullRequestCollector_record_def bind_panic_def Let_def example_defs
      MustNewConstMetric_def PullRequestCollector_All_def string_int_or_empty_def
      string_or_empty_def Sprint_def digit_char_def)

text \<open>
  Claim C10. Every sample the pull-request collector sends for a record is one of
  \<open>github_pull_requests_all\<close>, and its values for the labels \<open>assignees\<close> and
  \<open>requested_reviewers\<close> are the empty string, whatever the record's assignees and
  requested reviewers are.
\<close>

theorem pull_request_assignees_and_reviewers_empty:
  assumes "PullRequestCollector_record i rec = Inr ms" and "s \<in> set ms"
  shows "sample_desc s = PullRequestCollector_All \<and>
         label_value s ''assignees'' = Some '''' \<and>
         label_value s ''requested_reviewers'' = Some ''''"
  using assms
  apply (clarsimp simp: PullRequestCollector_record_def bind_panic_def Let_def
        split: sum.splits option.splits)
  apply (auto dest!: MustNewConstMetric_Inr simp: label_value_def PullRequestCollector_All_def)
  done

theorem pull_request_assignees_and_reviewers_empty_witness:
  "pr_Assignees reviewed_PullRequest \<noteq> [] \<and> pr_RequestedReviewers reviewed_PullRequest \<noteq> [] \<and>
   (\<exists>s. PullRequestCollector_record 0 (Some reviewed_PullRequest) = Inr [s] \<and>
     sample_desc s = PullRequestCollector_All \<and>
     label_value s ''assignees'' = Some '''' \<and>
     label_value s ''requested_reviewers'' = Some '''')"
  using pull_request_assignees_and_reviewers_empty [OF reviewed_PullRequest_sample, of
     "\<lparr>sample_desc = PullRequestCollector_All, sample_value = 0, sample_labels =
       [''7'', '''', ''Fix'', '''', '''', '''', '''', '''', '''', '''', '''', '''', '''', '''',
        '''', '''', '''', '''', '''']\<rparr>"]
  by (simp add: reviewed_PullRequest_sample) (simp add: example_defs)

subsection \<open>Absent fields in the combined metric\<close>

lemma issue_v2_absent_text:
  assumes "IssueCollector_record_v2 i (Some record) = Inr ms" and "s \<in> set ms"
  shows "sample_desc s = IssueCollector_All \<and>
     length (sample_labels s) = length (variableLabels (sample_desc s)) \<and>
     (issue_State record = None \<longrightarrow> label_value s ''status'' = Some '''') \<and>
     (issue_Title record = None \<longrightarrow> label_value s ''title'' = Some '''') \<and>
     (issue_Body record = None \<longrightarrow> label_value s ''body'' = Some '''') \<and>
     (login_absent (issue_User record) \<longrightarrow> label_value s ''user'' = Some '''') \<and>
     (issue_AuthorAssociation record = None \<longrightarrow> label_value s ''author_association'' = Some '''') \<and>
     (issue_Labels record = [] \<longrightarrow> label_value s ''label'' = Some '''') \<and>
     (issue_CreatedAt record = None \<longrightarrow> label_value s ''created_at'' = Some '''') \<and>
     (issue_UpdatedAt record = None \<longrightarrow> label_value s ''updated_at'' = Some '''') \<and>
     (issue_URL record = None \<longrightarrow> label_value s ''url'' = Some '''') \<and>
     (issue_HTMLURL record = None \<longrightarrow> label_value s ''html_url'' = Some '''') \<and>
     (login_absent (issue_Assignee record) \<longrightarrow> label_value s ''assignee'' = Some '''')"
  using assms
  apply (clarsimp simp: IssueCollector_record_v2_def bind_panic_def Let_def
        split: sum.splits option.splits)
  apply (auto dest!: MustNewConstMetric_Inr simp: label_value_def IssueCollector_All_def)
  done

lemma issue_absent_text:
  assumes "IssueCollector_record i (Some record) = Inr ms" and "s \<in> set ms"
  shows "sample_desc s = IssueCollector_All \<and>
     length (sample_labels s) = length (variableLabels (sample_desc s)) \<and>
     (issue_State record = None \<longrightarrow> label_value s ''status'' = Some '''') \<and>
     (issue_Title record = None \<longrightarrow> label_value s ''title'' = Some '''') \<and>
     (issue_Body record = None \<longrightarrow> label_value s ''body'' = Some '''') \<and>
     (login_absent (issue_User record) \<longrightarrow> label_value s ''user'' = Some '''') \<and>
     (issue_AuthorAssociation record = None \<longrightarrow> label_value s ''author_association'' = Some '''') \<and>
     (issue_Labels record = [] \<longrightarrow> label_value s ''label'' = Some '''') \<and>
     (issue_URL record = None \<longrightarrow> label_value s ''url'' = Some '''') \<and>
     (issue_HTMLURL record = None \<longrightarrow> label_value s ''html_url'' = Some '''') \<and>
     (login_absent (issue_Assignee record) \<longrightarrow> label_value s ''assignee'' = Some '''')"
  using assms
  apply (clarsimp simp: IssueCollector_record_def bind_panic_def Let_def
        split: sum.splits option.splits)
  apply (auto dest!: MustNewConstMetric_Inr simp: label_value_def IssueCollector_All_def)
  done

lemma pull_request_absent_text:
  assumes "PullRequestCollector_record i (Some record) = Inr ms" and "s \<in> set ms"
  shows "sample_desc s = PullRequestCollector_All \<and>
     length (sample_labels s) = length (variableLabels (sample_desc s)) \<and>
     (pr_State record = None \<longrightarrow> label_value s ''state'' = Some '''') \<and>
     (pr_Title record = None \<longrightarrow> label_value s ''title'' = Some '''') \<and>
     (pr_Body record = None \<longrightarrow> label_value s ''body'' = Some '''') \<and>
     (pr_CreatedAt record = None \<longrightarrow> label_value s ''created_at'' = Some '''') \<and>
     (pr_Labels record = [] \<longrightarrow> label_value s ''labels'' = Some '''') \<and>
     (login_absent (pr_User record) \<longrightarrow> label_value s ''user'' = Some '''') \<and>
     (pr_HTMLURL record = None \<longrightarrow> label_value s ''html_url'' = Some '''') \<and>
     (login_absent (pr_Assignee record) \<longrightarrow> label_value s ''assignee'' = Some '''') \<and>
     (pr_AuthorAssociation record = None \<longrightarrow> label_value s ''author_association'' = Some '''')"
  using assms
  apply (clarsimp simp: PullRequestCollector_record_def bind_panic_def Let_def
        split: sum.splits)
  apply (auto dest!: MustNewConstMetric_Inr simp: label_value_def PullRequestCollector_All_def)
  done

lemma bare_Issue_sample_v2:
  "IssueCollector_record_v2 0 (Some bare_Issue) = Inr [bare_Issue_metric]"
  by (simp add: IssueCollector_record_v2_def bind_panic_def Let_def example_defs
      MustNewConstMetric_def IssueCollector_All_def string_int64_or_empty_def
      login_or_empty_def Sprint_def digit_char_def)

lemma bare_Issue_sample:
  "IssueCollector_record 0 (Some bare_Issue) = Inr [bare_Issue_metric]"
  by (simp add: IssueCollector_record_def bind_panic_def Let_def example_defs
      MustNewConstMetric_def IssueCollector_All_def string_int64_or_empty_def
      login_or_empty_def Sprint_def digit_char_def)

lemma nil_PullRequest_sample:
  "PullRequestCollector_record 0 (Some nil_PullRequest) = Inr [nil_PullRequest_metric]"
  by (simp add: PullRequestCollector_record_def bind_panic_def Let_def example_defs
      MustNewConstMetric_def PullRequestCollector_All_def)

text \<open>
  Claim C2. Whenever a collector sends the combined metric for a record, the sample has
  as many label values as its descriptor has labels, and each text field that is absent
  in the record is carried as the empty string under its label: for the issue collector
  in both versions of its file, and for the pull-request collector. (The combined metric
  of the repository collector has no text label.)
\<close>

theorem absent_text_field_is_empty_label:
  "(IssueCollector_record_v2 i (Some issue) = Inr ms \<and> s \<in> set ms \<longrightarrow>
      sample_desc s = IssueCollector_All \<and>
      length (sample_labels s) = length (variableLabels (sample_desc s)) \<and>
      (issue_State issue = None \<longrightarrow> label_value s ''status'' = Some '''') \<and>
      (issue_Title issue = None \<longrightarrow> label_value s ''title'' = Some '''') \<and>
      (issue_Body issue = None \<longrightarrow> label_value s ''body'' = Some '''') \<and>
      (login_absent (issue_User issue) \<longrightarrow> label_value s ''user'' = Some '''') \<and>
      (issue_AuthorAssociation issue = None \<longrightarrow> label_value s ''author_association'' = Some '''') \<and>
      (issue_Labels issue = [] \<longrightarrow> label_value s ''label'' = Some '''') \<and>
      (issue_CreatedAt issue = None \<longrightarrow> label_value s ''created_at'' = Some '''') \<and>
      (issue_UpdatedAt issue = None \<longrightarrow> label_value s ''updated_at'' = Some '''') \<and>
      (issue_URL issue = None \<longrightarrow> label_value s ''url'' = Some '''') \<and>
      (issue_HTMLURL issue = None \<longrightarrow> label_value s ''html_url'' = Some '''') \<and>
      (login_absent (issue_Assignee issue) \<longrightarrow> label_value s ''assignee'' = Some '''')) \<and>
   (IssueCollector_record i (Some issue) = Inr ms' \<and> s' \<in> set ms' \<longrightarrow>
      sample_desc s' = IssueCollector_All \<and>
      length (sample_labels s') = length (variableLabels (sample_desc s')) \<and>
      (issue_State issue = None \<longrightarrow> label_value s' ''status'' = Some '''') \<and>
      (issue_Title issue = None \<longrightarrow> label_value s' ''title'' = Some '''') \<and>
      (issue_Body issue = None \<longrightarrow> label_value s' ''body'' = Some '''') \<and>
      (login_absent (issue_User issue) \<longrightarrow> label_value s' ''user'' = Some '''') \<and>
      (issue_AuthorAssociation issue = None \<longrightarrow> label_value s' ''author_association'' = Some '''') \<and>
      (issue_Labels issue = [] \<longrightarrow> label_value s' ''label'' = Some '''') \<and>
      (issue_URL issue = None \<longrightarrow> label_value s' ''url'' = Some '''') \<and>
      (issue_HTMLURL issue = None \<longrightarrow> label_value s' ''html_url'' = Some '''') \<and>
      (login_absent (issue_Assignee issue) \<longrightarrow> label_value s' ''assignee'' = Some '''')) \<and>
   (PullRequestCollector_record i (Some pr) = Inr ps \<and> p \<in> set ps \<longrightarrow>
      sample_desc p = PullRequestCollector_All \<and>
      length (sample_labels p) = length (variableLabels (sample_desc p)) \<and>
      (pr_State pr = None \<longrightarrow> label_value p ''state'' = Some '''') \<and>
      (pr_Title pr = None \<longrightarrow> label_value p ''title'' = Some '''') \<and>
      (pr_Body pr = None \<longrightarrow> label_value p ''body'' = Some '''') \<and>
      (pr_CreatedAt pr = None \<longrightarrow> label_value p ''created_at'' = Some '''') \<and>
      (pr_Labels pr = [] \<longrightarrow> label_value p ''labels'' = Some '''') \<and>
      (login_absent (pr_User pr) \<longrightarrow> label_value p ''user'' = Some '''') \<and>
      (pr_HTMLURL pr = None \<longrightarrow> label_value p ''html_url'' = Some '''') \<and>
      (login_absent (pr_Assignee pr) \<longrightarrow> label_value p ''assignee'' = Some '''') \<and>
      (pr_AuthorAssociation pr = None \<longrightarrow> label_value p ''author_association'' = Some ''''))"
  apply (rule conjI)
   apply (rule impI, erule conjE, rule issue_v2_absent_text, assumption+)
  apply (rule conjI)
   apply (rule impI, erule conjE, rule issue_absent_text, assumption+)
  apply (rule impI, erule conjE, rule pull_request_absent_text, assumption+)
  done

theorem absent_text_field_is_empty_label_witness:
  "(IssueCollector_record_v2 0 (Some bare_Issue) = Inr [bare_Issue_metric] \<and>
    bare_Issue_metric \<in> set [bare_Issue_metric] \<and>
    IssueCollector_record 0 (Some bare_Issue) = Inr [bare_Issue_metric] \<and>
    PullRequestCollector_record 0 (Some nil_PullRequest) = Inr [nil_PullRequest_metric] \<and>
    nil_PullRequest_metric \<in> set [nil_PullRequest_metric]) \<and>
   (issue_State bare_Issue = None \<and> issue_Title bare_Issue = None \<and>
    issue_Body bare_Issue = None \<and> login_absent (issue_User bare_Issue) \<and>
    issue_AuthorAssociation bare_Issue = None \<and> issue_Labels bare_Issue = [] \<and>
    issue_CreatedAt bare_Issue = None \<and> issue_UpdatedAt bare_Issue = None \<and>
    issue_URL bare_Issue = None \<and> issue_HTMLURL bare_Issue = None \<and>
    login_absent (issue_Assignee bare_Issue)) \<and>
   (pr_State nil_PullRequest = None \<and> pr_Title nil_PullRequest = None \<and>
    pr_Body nil_PullRequest = None \<and> pr_CreatedAt nil_PullRequest = None \<and>
    pr_Labels nil_PullRequest = [] \<and> login_absent (pr_User nil_PullRequest) \<and>
    pr_HTMLURL nil_PullRequest = None \<and> login_absent (pr_Assignee nil_PullRequest) \<and>
    pr_AuthorAssociation nil_PullRequest = None) \<and>
   (length (sample_labels bare_Issue_metric) = 17 \<and>
    length (variableLabels (sample_desc bare_Issue_metric)) = 17 \<and>
    map (label_value bare_Issue_metric)
      [''status'', ''title'', ''body'', ''user'', ''author_association'', ''label'',
       ''created_at'', ''updated_at'', ''url'', ''html_url'', ''assignee''] =
    replicate 11 (Some '''')) \<and>
   (length (sample_labels nil_PullRequest_metric) = 19 \<and>
    length (variableLabels (sample_desc nil_PullRequest_metric)) = 19 \<and>
    map (label_value nil_PullRequest_metric)
      [''state'', ''title'', ''body'', ''created_at'', ''labels'', ''user'', ''html_url'',
       ''assignee'', ''author_association''] =
    replicate 9 (Some ''''))"
  using absent_text_field_is_empty_label [of 0 bare_Issue "[bare_Issue_metric]" bare_Issue_metric
     "[bare_Issue_metric]" bare_Issue_metric nil_PullRequest "[nil_PullRequest_metric]"
     nil_PullRequest_metric]
  apply (simp only: bare_Issue_sample_v2 bare_Issue_sample nil_PullRequest_sample)
  apply (simp add: example_defs IssueCollector_All_def PullRequestCollector_All_def
      login_absent_def numeral_eq_Suc)
  done

subsection \<open>Malformed entries\<close>

lemma failures_Inc_simps [simp]:
  "ch (failures_Inc l st) = ch st"
  "requests (failures_Inc l st) = requests st"
  "failures (failures_Inc l st) = (failures st)(l := failures st l + 1)"
  by (simp_all add: failures_Inc_def)

text \<open>
  Claim C5. A configured entry that \<open>strings.Split(name, "/")\<close> does not cut into
  exactly two segments makes every collector add one to the failure counter (label
  \<open>repo\<close>), send nothing to the channel and make no request, and the poll goes on
  with the remaining entries from that state.
\<close>

theorem malformed_entry_counts_one_failure:
  assumes "length (Split name CHR ''/'') \<noteq> 2"
  shows "RepoCollector_target c name st = Some (Inr (failures_Inc ''repo'' st)) \<and>
         IssueCollector_target c name st = Inr (failures_Inc ''repo'' st) \<and>
         IssueCollector_target_v2 c name st = Inr (failures_Inc ''repo'' st) \<and>
         PullRequestCollector_target c name st = Inr (failures_Inc ''repo'' st) \<and>
         RepoCollector_Collect c (name # names) st =
           RepoCollector_Collect c names (failures_Inc ''repo'' st) \<and>
         IssueCollector_Collect c (name # names) st =
           IssueCollector_Collect c names (failures_Inc ''repo'' st) \<and>
         IssueCollector_Collect_v2 c (name # names) st =
           IssueCollector_Collect_v2 c names (failures_Inc ''repo'' st) \<and>
         PullRequestCollector_Collect c (name # names) st =
           PullRequestCollector_Collect c names (failures_Inc ''repo'' st) \<and>
         ch (failures_Inc ''repo'' st) = ch st \<and>
         requests (failures_Inc ''repo'' st) = requests st \<and>
         failures (failures_Inc ''repo'' st) = (failures st)(''repo'' := failures st ''repo'' + 1)"
  using assms
  by (simp add: RepoCollector_target_def IssueCollector_target_def IssueCollector_target_v2_def
      PullRequestCollector_target_def Let_def)

lemma acme_web_issues:
  "IssueCollector_Collect acme_client [''acme/web''] (failures_Inc ''repo'' poll_start) =
     Inr \<lparr>ch = [bare_Issue_metric], failures = (\<lambda>l. if l = ''repo'' then 1 else 0),
          requests = [IssuesListByRepo ''acme'' ''web'']\<rparr>"
  by (simp add: IssueCollector_target_def Let_def acme_client_def bare_Issue_sample
      poll_start_def failures_Inc_def fun_eq_iff)

lemma one_failure:
  "failures_Inc ''repo'' poll_start =
     \<lparr>ch = [], failures = (\<lambda>l. if l = ''repo'' then 1 else 0), requests = []\<rparr>"
  by (simp add: poll_start_def failures_Inc_def fun_eq_iff)

theorem malformed_entry_counts_one_failure_witness:
  "length (Split ''justaname'' CHR ''/'') \<noteq> 2 \<and>
   RepoCollector_Collect acme_client [''justaname''] poll_start =
     Some (Inr \<lparr>ch = [], failures = (\<lambda>l. if l = ''repo'' then 1 else 0), requests = []\<rparr>) \<and>
   PullRequestCollector_Collect acme_client [''justaname''] poll_start =
     Inr \<lparr>ch = [], failures = (\<lambda>l. if l = ''repo'' then 1 else 0), requests = []\<rparr> \<and>
   IssueCollector_Collect_v2 acme_client [''justaname''] poll_start =
     Inr \<lparr>ch = [], failures = (\<lambda>l. if l = ''repo'' then 1 else 0), requests = []\<rparr> \<and>
   IssueCollector_Collect acme_client [''justaname'', ''acme/web''] poll_start =
     Inr \<lparr>ch = [bare_Issue_metric], failures = (\<lambda>l. if l = ''repo'' then 1 else 0),
          requests = [IssuesListByRepo ''acme'' ''web'']\<rparr>"
proof -
  have h: "length (Split ''justaname'' CHR ''/'') \<noteq> 2"
    by simp
  note t = malformed_entry_counts_one_failure [OF h, of acme_client poll_start]
  have r: "RepoCollector_Collect acme_client [''justaname''] poll_start =
      RepoCollector_Collect acme_client [] (failures_Inc ''repo'' poll_start)"
    using t [of "[]"] by (elim conjE)
  have p: "PullRequestCollector_Collect acme_client [''justaname''] poll_start =
      PullRequestCollector_Collect acme_client [] (failures_Inc ''repo'' poll_start)"
    using t [of "[]"] by (elim conjE)
  have v: "IssueCollector_Collect_v2 acme_client [''justaname''] poll_start =
      IssueCollector_Collect_v2 acme_client [] (failures_Inc ''repo'' poll_start)"
    using t [of "[]"] by (elim conjE)
  have i: "IssueCollector_Collect acme_client [''justaname'', ''acme/web''] poll_start =
      IssueCollector_Collect acme_client [''acme/web''] (failures_Inc ''repo'' poll_start)"
    using t [of "[''acme/web'']"] by (elim conjE)
  show ?thesis
    unfolding r p v i acme_web_issues
    using h by (simp add: one_failure)
qed

subsection \<open>The label of the failure counter\<close>

text \<open>
  Claim C7 asks for failures counted per collector kind. The code counts every failure
  of every collector under the one label value \<open>repo\<close>: after a malformed entry and
  a failed call, the repository, issue and pull-request collectors all leave the same
  counter, 2 under \<open>repo\<close> and 0 under any other label.
\<close>

theorem failures_of_every_collector_share_one_label:
  "RepoCollector_Collect acme_client [''justaname'', ''acme/gone''] poll_start =
     Some (Inr \<lparr>ch = [], failures = (\<lambda>l. if l = ''repo'' then 2 else 0),
                requests = [RepositoriesGet ''acme'' ''gone'']\<rparr>) \<and>
   IssueCollector_Collect acme_client [''justaname'', ''acme/gone''] poll_start =
     Inr \<lparr>ch = [], failures = (\<lambda>l. if l = ''repo'' then 2 else 0),
          requests = [IssuesListByRepo ''acme'' ''gone'']\<rparr> \<and>
   IssueCollector_Collect_v2 acme_client [''justaname'', ''acme/gone''] poll_start =
     Inr \<lparr>ch = [], failures = (\<lambda>l. if l = ''repo'' then 2 else 0),
          requests = [IssuesListByRepo ''acme'' ''gone'']\<rparr> \<and>
   PullRequestCollector_Collect acme_client [''justaname'', ''acme/gone''] poll_start =
     Inr \<lparr>ch = [], failures = (\<lambda>l. if l = ''repo'' then 2 else 0),
          requests = [PullRequestsList ''acme'' ''gone'']\<rparr>"
  by (simp add: RepoCollector_target_def IssueCollector_target_def IssueCollector_target_v2_def
      PullRequestCollector_target_def reposByOwnerAndName_def Contains_def Let_def
      acme_client_def poll_start_def failures_Inc_def not_found_def fun_eq_iff)

subsection \<open>Patterns handed to the list endpoints\<close>

text \<open>
  Claim C4 asks that no pattern still containing \<open>*\<close> reaches a list endpoint. The
  issue and pull-request collectors make no search call: for the entry
  \<open>acme/*-service\<close> their only request is the list call with the repository name
  \<open>*-service\<close>.
\<close>

theorem pattern_is_passed_to_the_list_endpoint:
  "IssueCollector_Collect acme_client [''acme/*-service''] poll_start =
     Inr \<lparr>ch = [], failures = (\<lambda>l. if l = ''repo'' then 1 else 0),
          requests = [IssuesListByRepo ''acme'' ''*-service'']\<rparr> \<and>
   IssueCollector_Collect_v2 acme_client [''acme/*-service''] poll_start =
     Inr \<lparr>ch = [], failures = (\<lambda>l. if l = ''repo'' then 1 else 0),
          requests = [IssuesListByRepo ''acme'' ''*-service'']\<rparr> \<and>
   PullRequestCollector_Collect acme_client [''acme/*-service''] poll_start =
     Inr \<lparr>ch = [], failures = (\<lambda>l. if l = ''repo'' then 1 else 0),
          requests = [PullRequestsList ''acme'' ''*-service'']\<rparr>"
  by (simp add: IssueCollector_target_def IssueCollector_target_v2_def
      PullRequestCollector_target_def Let_def
      acme_client_def poll_start_def failures_Inc_def not_found_def fun_eq_iff)

subsection \<open>Absent fields that are read through\<close>

text \<open>
  Claim C1 asks that no absent field is read through. An issue without a reactions
  object, a repository without a full name and a repository without a push timestamp
  each end the loop body in a nil pointer dereference, and with it the whole
  \<open>Collect\<close>.
\<close>

theorem absent_field_panics:
  "IssueCollector_record_v2 0 (Some (nil_Issue\<lparr>issue_ID := Some 42\<rparr>)) = Inl NilPointerDereference \<and>
   IssueCollector_record 0 (Some (nil_Issue\<lparr>issue_ID := Some 42\<rparr>)) = Inl NilPointerDereference \<and>
   RepoCollector_record ''acme/web'' ''acme'' 0 (Some nil_Repository) = Inl NilPointerDereference \<and>
   RepoCollector_record ''acme/web'' ''acme'' 0
     (Some (nil_Repository\<lparr>repo_FullName := Some ''acme/web'', repo_Name := Some ''web''\<rparr>)) =
     Inl NilPointerDereference \<and>
   IssueCollector_Collect_v2
     (acme_client\<lparr>Issues_ListByRepo := (\<lambda>owner repo. Inr [Some (nil_Issue\<lparr>issue_ID := Some 42\<rparr>)])\<rparr>)
     [''acme/web''] poll_start = Inl NilPointerDereference"
  by (simp add: IssueCollector_record_v2_def IssueCollector_record_def RepoCollector_record_def
      IssueCollector_target_v2_def
      bind_panic_def Let_def nil_Issue_def nil_Repository_def gauge_if_bool_def gauge_if_int_def
      gauge_time_def acme_client_def poll_start_def)

subsection \<open>Direct fetch\<close>

text \<open>
  Claim C8. For a repository name without \<open>*\<close>, \<open>reposByOwnerAndName\<close> makes one
  request, the fetch of that repository by name, and returns the one repository the
  fetch gives (or the transport error of the fetch).
\<close>

theorem direct_fetch_resolves_one_repository:
  assumes "\<not> Contains repo CHR ''*''"
  shows "\<exists>res. reposByOwnerAndName c owner repo = Some (res, [RepositoriesGet owner repo]) \<and>
           (\<forall>r. Repositories_Get c owner repo = Inr r \<longrightarrow> res = Inr [Some r]) \<and>
           (\<forall>err. Repositories_Get c owner repo = Inl err \<longrightarrow> res = Inl err)"
  using assms by (auto simp: reposByOwnerAndName_def split: sum.splits)

theorem direct_fetch_resolves_one_repository_witness:
  "\<not> Contains ''web'' CHR ''*'' \<and>
   Repositories_Get acme_client ''acme'' ''web'' = Inr (acme_repo ''web'') \<and>
   reposByOwnerAndName acme_client ''acme'' ''web'' =
     Some (Inr [Some (acme_repo ''web'')], [RepositoriesGet ''acme'' ''web''])"
  using direct_fetch_resolves_one_repository [of "''web''" acme_client "''acme''"]
  by (auto simp: Contains_def acme_client_def)

subsection \<open>The search loop\<close>

lemma search_loop_pages:
  assumes "\<forall>j<k. Search_Repositories c q (opts\<lparr>opts_Page := pg j\<rparr>) =
              Inr \<lparr>result_Repositories = rs j, resp_NextPage = pg (Suc j)\<rparr> \<and> pg (Suc j) \<noteq> 0"
    and "Search_Repositories c q (opts\<lparr>opts_Page := pg k\<rparr>) =
              Inr \<lparr>result_Repositories = rs k, resp_NextPage = 0\<rparr>"
  shows "search_loop c q (opts\<lparr>opts_Page := pg 0\<rparr>) repos calls =
           Some (Inr (repos @ concat (map rs [0..<Suc k])),
                 calls @ map (\<lambda>j. SearchRepositories q (opts\<lparr>opts_Page := pg j\<rparr>)) [0..<Suc k])"
  using assms
proof (induction k arbitrary: pg rs repos calls)
  case 0
  then show ?case
    by (subst search_loop.simps) simp
next
  case (Suc k)
  from Suc.prems(1) have first:
    "Search_Repositories c q (opts\<lparr>opts_Page := pg 0\<rparr>) =
       Inr \<lparr>result_Repositories = rs 0, resp_NextPage = pg (Suc 0)\<rparr>" "pg (Suc 0) \<noteq> 0"
    by auto
  have later: "\<forall>j<k. Search_Repositories c q (opts\<lparr>opts_Page := (pg \<circ> Suc) j\<rparr>) =
       Inr \<lparr>result_Repositories = (rs \<circ> Suc) j, resp_NextPage = (pg \<circ> Suc) (Suc j)\<rparr> \<and>
       (pg \<circ> Suc) (Suc j) \<noteq> 0"
    using Suc.prems(1) by auto
  have last: "Search_Repositories c q (opts\<lparr>opts_Page := (pg \<circ> Suc) k\<rparr>) =
       Inr \<lparr>result_Repositories = (rs \<circ> Suc) k, resp_NextPage = 0\<rparr>"
    using Suc.prems(2) by simp
  have step: "search_loop c q (opts\<lparr>opts_Page := pg 0\<rparr>) repos calls =
      search_loop c q (opts\<lparr>opts_Page := (pg \<circ> Suc) 0\<rparr>) (repos @ rs 0)
        (calls @ [SearchRepositories q (opts\<lparr>opts_Page := pg 0\<rparr>)])"
    by (subst search_loop.simps) (simp add: first)
  have m1: "map rs [0..<Suc (Suc k)] = rs 0 # map (rs \<circ> Suc) [0..<Suc k]"
    by (simp only: map_upt_Suc [of rs "Suc k"] comp_def)
  have m2: "map (\<lambda>j. SearchRepositories q (opts\<lparr>opts_Page := pg j\<rparr>)) [0..<Suc (Suc k)] =
      SearchRepositories q (opts\<lparr>opts_Page := pg 0\<rparr>) #
      map (\<lambda>j. SearchRepositories q (opts\<lparr>opts_Page := (pg \<circ> Suc) j\<rparr>)) [0..<Suc k]"
    by (simp only: map_upt_Suc [of "\<lambda>j. SearchRepositories q (opts\<lparr>opts_Page := pg j\<rparr>)" "Suc k"] comp_def)
  show ?case
    unfolding step Suc.IH [OF later last] m1 m2 by simp
qed

text \<open>
  Claim C9. If the responses to the search lead, page after page, to one whose next
  page is 0 (the first \<open>k\<close> responses name a next page other than 0, the response
  after them names 0), the loop of \<open>reposByOwnerAndName\<close> returns: it has made exactly
  those \<open>k + 1\<close> search calls, one per page, and its result is the repositories of all
  these pages in order.
\<close>

theorem search_loop_terminates:
  assumes "Contains repo CHR ''*''"
    and "pg 0 = 0"
    and "\<forall>j<k. Search_Repositories c (''user:'' @ owner) \<lparr>opts_Page = pg j, opts_PerPage = 50\<rparr> =
              Inr \<lparr>result_Repositories = rs j, resp_NextPage = pg (Suc j)\<rparr> \<and> pg (Suc j) \<noteq> 0"
    and "Search_Repositories c (''user:'' @ owner) \<lparr>opts_Page = pg k, opts_PerPage = 50\<rparr> =
              Inr \<lparr>result_Repositories = rs k, resp_NextPage = 0\<rparr>"
  shows "reposByOwnerAndName c owner repo =
           Some (Inr (concat (map rs [0..<Suc k])),
                 map (\<lambda>j. SearchRepositories (''user:'' @ owner) \<lparr>opts_Page = pg j, opts_PerPage = 50\<rparr>)
                   [0..<Suc k])"
proof -
  have "search_loop c (''user:'' @ owner) (\<lparr>opts_Page = 0, opts_PerPage = 50\<rparr>\<lparr>opts_Page := pg 0\<rparr>) [] [] =
      Some (Inr ([] @ concat (map rs [0..<Suc k])),
        [] @ map (\<lambda>j. SearchRepositories (''user:'' @ owner)
              (\<lparr>opts_Page = 0, opts_PerPage = 50\<rparr>\<lparr>opts_Page := pg j\<rparr>)) [0..<Suc k])"
    using assms(3,4) by (intro search_loop_pages) simp_all
  then show ?thesis
    using assms(1,2) by (simp add: reposByOwnerAndName_def)
qed


theorem search_loop_terminates_witness:
  "Contains ''*-service'' CHR ''*'' \<and>
   Search_Repositories paged_client ''user:acme'' \<lparr>opts_Page = 0, opts_PerPage = 50\<rparr> =
     Inr \<lparr>result_Repositories = [Some (acme_repo ''auth-service'')], resp_NextPage = 2\<rparr> \<and>
   Search_Repositories paged_client ''user:acme'' \<lparr>opts_Page = 2, opts_PerPage = 50\<rparr> =
     Inr \<lparr>result_Repositories = [Some (acme_repo ''web''), Some (acme_repo ''pay-service'')],
          resp_NextPage = 0\<rparr> \<and>
   reposByOwnerAndName paged_client ''acme'' ''*-service'' =
     Some (Inr [Some (acme_repo ''auth-service''), Some (acme_repo ''web''),
                Some (acme_repo ''pay-service'')],
           [SearchRepositories ''user:acme'' \<lparr>opts_Page = 0, opts_PerPage = 50\<rparr>,
            SearchRepositories ''user:acme'' \<lparr>opts_Page = 2, opts_PerPage = 50\<rparr>])"
  using search_loop_terminates [of "''*-service''" paged_pg 1 paged_client "''acme''" paged_rs]
  by (simp add: Contains_def paged_pg_def paged_rs_def paged_client_def acme_client_def)

subsection \<open>Transport errors\<close>

lemma search_loop_failed_calls_aux:
  assumes "search_loop c q opts repos calls = Some y"
  shows "\<exists>new. snd y = calls @ new \<and>
           length (filter (call_failed c) new) = (if isl (fst y) then 1 else 0)"
proof (rule search_loop.raw_induct [where P = "\<lambda>c q opts repos calls y.
    \<exists>new. snd y = calls @ new \<and>
      length (filter (call_failed c) new) = (if isl (fst y) then 1 else 0)"], goal_cases)
  case (1 loop c q opts repos calls y)
  show ?case
  proof (cases "Search_Repositories c q opts")
    case (Inl err)
    with 1(2) show ?thesis by auto
  next
    case (Inr resp)
    show ?thesis
    proof (cases "resp_NextPage resp = 0")
      case True
      with Inr 1(2) show ?thesis by auto
    next
      case False
      with Inr 1(2) have "loop c q (opts\<lparr>opts_Page := resp_NextPage resp\<rparr>)
          (repos @ result_Repositories resp) (calls @ [SearchRepositories q opts]) = Some y"
        by simp
      from 1(1) [OF this] obtain new where
        "snd y = (calls @ [SearchRepositories q opts]) @ new"
        "length (filter (call_failed c) new) = (if isl (fst y) then 1 else 0)" by blast
      then show ?thesis using Inr
        by (intro exI [of _ "SearchRepositories q opts # new"]) simp
    qed
  qed
next
  show "search_loop c q opts repos calls = Some y"
    by (rule assms)
qed

lemma reposByOwnerAndName_failed_calls:
  assumes "reposByOwnerAndName c owner repo = Some (res, cs)"
  shows "length (filter (call_failed c) cs) = (if isl res then 1 else 0)"
proof (cases "Contains repo CHR ''*''")
  case True
  with assms have "search_loop c (''user:'' @ owner) \<lparr>opts_Page = 0, opts_PerPage = 50\<rparr> [] [] =
      Some (res, cs)"
    by (simp add: reposByOwnerAndName_def)
  from search_loop_failed_calls_aux [OF this] show ?thesis by simp
next
  case False
  with assms show ?thesis
    by (auto simp: reposByOwnerAndName_def split: sum.splits)
qed

text \<open>The samples of a poll do not depend on the counter or on the requests made before.\<close>

lemma IssueCollector_target_samples:
  assumes "ch st1 = ch st2"
  shows "rel_sum (=) (\<lambda>a b. ch a = ch b)
           (IssueCollector_target c name st1) (IssueCollector_target c name st2)"
  using assms
  by (simp add: IssueCollector_target_def Let_def failures_Inc_def split: sum.splits)

lemma IssueCollector_Collect_samples:
  assumes "ch st1 = ch st2"
  shows "rel_sum (=) (\<lambda>a b. ch a = ch b)
           (IssueCollector_Collect c names st1) (IssueCollector_Collect c names st2)"
  using assms
proof (induction names arbitrary: st1 st2)
  case Nil
  then show ?case by simp
next
  case (Cons name names)
  from IssueCollector_target_samples [OF Cons.prems, of c name] show ?case
    by (cases rule: rel_sum.cases) (auto intro: Cons.IH)
qed

lemma IssueCollector_target_v2_samples:
  assumes "ch st1 = ch st2"
  shows "rel_sum (=) (\<lambda>a b. ch a = ch b)
           (IssueCollector_target_v2 c name st1) (IssueCollector_target_v2 c name st2)"
  using assms
  by (simp add: IssueCollector_target_v2_def Let_def failures_Inc_def split: sum.splits)

lemma IssueCollector_Collect_v2_samples:
  assumes "ch st1 = ch st2"
  shows "rel_sum (=) (\<lambda>a b. ch a = ch b)
           (IssueCollector_Collect_v2 c names st1) (IssueCollector_Collect_v2 c names st2)"
  using assms
proof (induction names arbitrary: st1 st2)
  case Nil
  then show ?case by simp
next
  case (Cons name names)
  from IssueCollector_target_v2_samples [OF Cons.prems, of c name] show ?case
    by (cases rule: rel_sum.cases) (auto intro: Cons.IH)
qed

lemma PullRequestCollector_target_samples:
  assumes "ch st1 = ch st2"
  shows "rel_sum (=) (\<lambda>a b. ch a = ch b)
           (PullRequestCollector_target c name st1) (PullRequestCollector_target c name st2)"
  using assms
  by (simp add: PullRequestCollector_target_def Let_def failures_Inc_def split: sum.splits)

lemma PullRequestCollector_Collect_samples:
  assumes "ch st1 = ch st2"
  shows "rel_sum (=) (\<lambda>a b. ch a = ch b)
           (PullRequestCollector_Collect c names st1) (PullRequestCollector_Collect c names st2)"
  using assms
proof (induction names arbitrary: st1 st2)
  case Nil
  then show ?case by simp
next
  case (Cons name names)
  from PullRequestCollector_target_samples [OF Cons.prems, of c name] show ?case
    by (cases rule: rel_sum.cases) (auto intro: Cons.IH)
qed

lemma RepoCollector_target_samples:
  assumes "ch st1 = ch st2"
  shows "rel_option (rel_sum (=) (\<lambda>a b. ch a = ch b))
           (RepoCollector_target c name st1) (RepoCollector_target c name st2)"
  using assms
  by (simp add: RepoCollector_target_def Let_def failures_Inc_def
      split: sum.splits option.splits prod.splits)

lemma RepoCollector_Collect_samples:
  assumes "ch st1 = ch st2"
  shows "rel_option (rel_sum (=) (\<lambda>a b. ch a = ch b))
           (RepoCollector_Collect c names st1) (RepoCollector_Collect c names st2)"
  using assms
proof (induction names arbitrary: st1 st2)
  case Nil
  then show ?case by simp
next
  case (Cons name names)
  from RepoCollector_target_samples [OF Cons.prems, of c name] show ?case
  proof (cases rule: option.rel_cases)
    case None
    then show ?thesis by simp
  next
    case (Some x y)
    from Some(3) show ?thesis
      by (cases rule: rel_sum.cases) (auto simp: Some(1,2) intro: Cons.IH)
  qed
qed

lemma samples_of_rel:
  "rel_sum (=) (\<lambda>a b. ch a = ch b) r1 r2 \<Longrightarrow> samples_of r1 = samples_of r2"
  by (auto simp: samples_of_def elim: rel_sum.cases)

lemma samples_of_rel_option:
  "rel_option (rel_sum (=) (\<lambda>a b. ch a = ch b)) r1 r2 \<Longrightarrow>
     map_option samples_of r1 = map_option samples_of r2"
  by (auto simp: samples_of_rel elim: option.rel_cases)

lemma Split_two:
  assumes "Split name CHR ''/'' = [owner, repo]"
  shows "length (Split name CHR ''/'') = 2" "Split name CHR ''/'' ! 0 = owner"
    "Split name CHR ''/'' ! Suc 0 = repo"
  using assms by simp_all

lemma acme_repo_record:
  "RepoCollector_record name ''acme'' i (Some (acme_repo n)) =
     (if Glob name (''acme/'' @ n) then Inr (acme_repo_metrics n i) else Inr [])"
  by (simp add: RepoCollector_record_def acme_repo_def nil_Repository_def Let_def
      gauge_if_bool_def gauge_if_int_def gauge_time_def count_label_def epoch_def
      MustNewConstMetric_def acme_repo_metrics_def RepoCollector_Forks_def
      RepoCollector_Pushed_def RepoCollector_Created_def RepoCollector_Updated_def
      RepoCollector_All_def repo_labels_def string_int_or_empty_def Sprint_def digit_char_def)

lemma broken_resolution:
  "reposByOwnerAndName broken_client ''acme'' ''*'' =
     Some (Inl not_found,
           [SearchRepositories ''user:acme'' \<lparr>opts_Page = 0, opts_PerPage = 50\<rparr>,
            SearchRepositories ''user:acme'' \<lparr>opts_Page = 2, opts_PerPage = 50\<rparr>])"
  unfolding reposByOwnerAndName_def
  by (subst search_loop.simps, simp add: Contains_def broken_client_def)
     (subst search_loop.simps, simp add: broken_client_def)

lemma broken_then_web_repos:
  "RepoCollector_Collect broken_client [''acme/*'', ''acme/web''] poll_start =
     Some (Inr \<lparr>ch = acme_repo_metrics ''web'' 0,
                failures = (\<lambda>l. if l = ''repo'' then 1 else 0),
                requests =
                  [SearchRepositories ''user:acme'' \<lparr>opts_Page = 0, opts_PerPage = 50\<rparr>,
                   SearchRepositories ''user:acme'' \<lparr>opts_Page = 2, opts_PerPage = 50\<rparr>,
                   RepositoriesGet ''acme'' ''web'']\<rparr>)"
proof -
  have get: "reposByOwnerAndName broken_client ''acme'' ''web'' =
      Some (Inr [Some (acme_repo ''web'')], [RepositoriesGet ''acme'' ''web''])"
    by (simp add: reposByOwnerAndName_def Contains_def broken_client_def acme_client_def)
  show ?thesis
    by (simp add: RepoCollector_target_def Let_def broken_resolution get acme_repo_record
        poll_start_def failures_Inc_def fun_eq_iff)
qed

lemma broken_then_web_issues:
  "IssueCollector_Collect broken_client [''acme/*'', ''acme/web''] poll_start =
     Inr \<lparr>ch = [bare_Issue_metric], failures = (\<lambda>l. if l = ''repo'' then 1 else 0),
          requests = [IssuesListByRepo ''acme'' ''*'', IssuesListByRepo ''acme'' ''web'']\<rparr>"
  by (simp add: IssueCollector_target_def Let_def broken_client_def acme_client_def
      bare_Issue_sample poll_start_def failures_Inc_def not_found_def fun_eq_iff)

lemma broken_then_web_issues_v2:
  "IssueCollector_Collect_v2 broken_client [''acme/*'', ''acme/web''] poll_start =
     Inr \<lparr>ch = [bare_Issue_metric], failures = (\<lambda>l. if l = ''repo'' then 1 else 0),
          requests = [IssuesListByRepo ''acme'' ''*'', IssuesListByRepo ''acme'' ''web'']\<rparr>"
  by (simp add: IssueCollector_target_v2_def Let_def broken_client_def acme_client_def
      bare_Issue_sample_v2 poll_start_def failures_Inc_def not_found_def fun_eq_iff)

lemma broken_then_web_pulls:
  "PullRequestCollector_Collect broken_client [''acme/*'', ''acme/web''] poll_start =
     Inr \<lparr>ch = [reviewed_PullRequest_metric],
          failures = (\<lambda>l. if l = ''repo'' then 1 else 0),
          requests = [PullRequestsList ''acme'' ''*'', PullRequestsList ''acme'' ''web'']\<rparr>"
  by (simp add: PullRequestCollector_target_def Let_def broken_client_def acme_client_def
      reviewed_PullRequest_sample reviewed_PullRequest_metric_def
      poll_start_def failures_Inc_def not_found_def fun_eq_iff)

text \<open>
  Claim C6. When the resolution of a target (repository collector) or its list call
  (issue and pull-request collectors) returns a transport error, the collector adds one
  to the failure counter, sends no sample for the target, and has made no request after
  the failed one (the repository collector's requests for the target hold exactly one
  failed call, the other collectors make the one list call); the poll goes on with the
  remaining targets, and its samples are those of a poll of the remaining targets alone.
\<close>

theorem transport_error_skips_only_that_target:
  assumes "Split name CHR ''/'' = [owner, repo]"
  shows
    "(reposByOwnerAndName c owner repo = Some (Inl err, calls) \<longrightarrow>
        RepoCollector_target c name st =
          Some (Inr (failures_Inc ''repo'' (st\<lparr>requests := requests st @ calls\<rparr>))) \<and>
        length (filter (call_failed c) calls) = 1 \<and>
        RepoCollector_Collect c (name # names) st =
          RepoCollector_Collect c names
            (failures_Inc ''repo'' (st\<lparr>requests := requests st @ calls\<rparr>)) \<and>
        map_option samples_of (RepoCollector_Collect c (name # names) st) =
          map_option samples_of (RepoCollector_Collect c names st)) \<and>
     (Issues_ListByRepo c owner repo = Inl err \<longrightarrow>
        IssueCollector_target c name st =
          Inr (failures_Inc ''repo''
                 (st\<lparr>requests := requests st @ [IssuesListByRepo owner repo]\<rparr>)) \<and>
        IssueCollector_Collect c (name # names) st =
          IssueCollector_Collect c names
            (failures_Inc ''repo''
               (st\<lparr>requests := requests st @ [IssuesListByRepo owner repo]\<rparr>)) \<and>
        samples_of (IssueCollector_Collect c (name # names) st) =
          samples_of (IssueCollector_Collect c names st) \<and>
        IssueCollector_target_v2 c name st =
          Inr (failures_Inc ''repo''
                 (st\<lparr>requests := requests st @ [IssuesListByRepo owner repo]\<rparr>)) \<and>
        IssueCollector_Collect_v2 c (name # names) st =
          IssueCollector_Collect_v2 c names
            (failures_Inc ''repo''
               (st\<lparr>requests := requests st @ [IssuesListByRepo owner repo]\<rparr>)) \<and>
        samples_of (IssueCollector_Collect_v2 c (name # names) st) =
          samples_of (IssueCollector_Collect_v2 c names st)) \<and>
     (PullRequests_List c owner repo = Inl err \<longrightarrow>
        PullRequestCollector_target c name st =
          Inr (failures_Inc ''repo''
                 (st\<lparr>requests := requests st @ [PullRequestsList owner repo]\<rparr>)) \<and>
        PullRequestCollector_Collect c (name # names) st =
          PullRequestCollector_Collect c names
            (failures_Inc ''repo''
               (st\<lparr>requests := requests st @ [PullRequestsList owner repo]\<rparr>)) \<and>
        samples_of (PullRequestCollector_Collect c (name # names) st) =
          samples_of (PullRequestCollector_Collect c names st))"
proof (intro conjI impI)
  note two = Split_two [OF assms]
  {
    assume r: "reposByOwnerAndName c owner repo = Some (Inl err, calls)"
    show t: "RepoCollector_target c name st =
        Some (Inr (failures_Inc ''repo'' (st\<lparr>requests := requests st @ calls\<rparr>)))"
      by (simp add: RepoCollector_target_def Let_def two r)
    show "length (filter (call_failed c) calls) = 1"
      using reposByOwnerAndName_failed_calls [OF r] by simp
    show "RepoCollector_Collect c (name # names) st =
        RepoCollector_Collect c names
          (failures_Inc ''repo'' (st\<lparr>requests := requests st @ calls\<rparr>))"
      by (simp add: t)
    then show "map_option samples_of (RepoCollector_Collect c (name # names) st) =
        map_option samples_of (RepoCollector_Collect c names st)"
      by (simp only: samples_of_rel_option [OF RepoCollector_Collect_samples [of
          "failures_Inc ''repo'' (st\<lparr>requests := requests st @ calls\<rparr>)" st c names,
          simplified]])
  }
  {
    assume r: "Issues_ListByRepo c owner repo = Inl err"
    show t: "IssueCollector_target c name st =
        Inr (failures_Inc ''repo'' (st\<lparr>requests := requests st @ [IssuesListByRepo owner repo]\<rparr>))"
      by (simp add: IssueCollector_target_def Let_def two r)
    show "IssueCollector_Collect c (name # names) st =
        IssueCollector_Collect c names
          (failures_Inc ''repo'' (st\<lparr>requests := requests st @ [IssuesListByRepo owner repo]\<rparr>))"
      by (simp add: t)
    then show "samples_of (IssueCollector_Collect c (name # names) st) =
        samples_of (IssueCollector_Collect c names st)"
      by (simp only: samples_of_rel [OF IssueCollector_Collect_samples [of
          "failures_Inc ''repo'' (st\<lparr>requests := requests st @ [IssuesListByRepo owner repo]\<rparr>)"
          st c names, simplified]])
    show t2: "IssueCollector_target_v2 c name st =
        Inr (failures_Inc ''repo'' (st\<lparr>requests := requests st @ [IssuesListByRepo owner repo]\<rparr>))"
      by (simp add: IssueCollector_target_v2_def Let_def two r)
    show "IssueCollector_Collect_v2 c (name # names) st =
        IssueCollector_Collect_v2 c names
          (failures_Inc ''repo'' (st\<lparr>requests := requests st @ [IssuesListByRepo owner repo]\<rparr>))"
      by (simp add: t2)
    then show "samples_of (IssueCollector_Collect_v2 c (name # names) st) =
        samples_of (IssueCollector_Collect_v2 c names st)"
      by (simp only: samples_of_rel [OF IssueCollector_Collect_v2_samples [of
          "failures_Inc ''repo'' (st\<lparr>requests := requests st @ [IssuesListByRepo owner repo]\<rparr>)"
          st c names, simplified]])
  }
  {
    assume r: "PullRequests_List c owner repo = Inl err"
    show t: "PullRequestCollector_target c name st =
        Inr (failures_Inc ''repo'' (st\<lparr>requests := requests st @ [PullRequestsList owner repo]\<rparr>))"
      by (simp add: PullRequestCollector_target_def Let_def two r)
    show "PullRequestCollector_Collect c (name # names) st =
        PullRequestCollector_Collect c names
          (failures_Inc ''repo'' (st\<lparr>requests := requests st @ [PullRequestsList owner repo]\<rparr>))"
      by (simp add: t)
    then show "samples_of (PullRequestCollector_Collect c (name # names) st) =
        samples_of (PullRequestCollector_Collect c names st)"
      by (simp only: samples_of_rel [OF PullRequestCollector_Collect_samples [of
          "failures_Inc ''repo'' (st\<lparr>requests := requests st @ [PullRequestsList owner repo]\<rparr>)"
          st c names, simplified]])
  }
qed

theorem transport_error_skips_only_that_target_witness:
  "(Split ''acme/*'' CHR ''/'' = [''acme'', ''*''] \<and>
    reposByOwnerAndName broken_client ''acme'' ''*'' =
      Some (Inl not_found,
            [SearchRepositories ''user:acme'' \<lparr>opts_Page = 0, opts_PerPage = 50\<rparr>,
             SearchRepositories ''user:acme'' \<lparr>opts_Page = 2, opts_PerPage = 50\<rparr>]) \<and>
    Issues_ListByRepo broken_client ''acme'' ''*'' = Inl not_found \<and>
    PullRequests_List broken_client ''acme'' ''*'' = Inl not_found) \<and>
   length (filter (call_failed broken_client)
     [SearchRepositories ''user:acme'' \<lparr>opts_Page = 0, opts_PerPage = 50\<rparr>,
      SearchRepositories ''user:acme'' \<lparr>opts_Page = 2, opts_PerPage = 50\<rparr>]) = 1 \<and>
   map_option samples_of (RepoCollector_Collect broken_client [''acme/*'', ''acme/web''] poll_start) =
     map_option samples_of (RepoCollector_Collect broken_client [''acme/web''] poll_start) \<and>
   RepoCollector_Collect broken_client [''acme/*'', ''acme/web''] poll_start =
     Some (Inr \<lparr>ch = acme_repo_metrics ''web'' 0,
                failures = (\<lambda>l. if l = ''repo'' then 1 else 0),
                requests =
                  [SearchRepositories ''user:acme'' \<lparr>opts_Page = 0, opts_PerPage = 50\<rparr>,
                   SearchRepositories ''user:acme'' \<lparr>opts_Page = 2, opts_PerPage = 50\<rparr>,
                   RepositoriesGet ''acme'' ''web'']\<rparr>) \<and>
   IssueCollector_Collect broken_client [''acme/*'', ''acme/web''] poll_start =
     Inr \<lparr>ch = [bare_Issue_metric], failures = (\<lambda>l. if l = ''repo'' then 1 else 0),
          requests = [IssuesListByRepo ''acme'' ''*'', IssuesListByRepo ''acme'' ''web'']\<rparr> \<and>
   IssueCollector_Collect_v2 broken_client [''acme/*'', ''acme/web''] poll_start =
     Inr \<lparr>ch = [bare_Issue_metric], failures = (\<lambda>l. if l = ''repo'' then 1 else 0),
          requests = [IssuesListByRepo ''acme'' ''*'', IssuesListByRepo ''acme'' ''web'']\<rparr> \<and>
   PullRequestCollector_Collect broken_client [''acme/*'', ''acme/web''] poll_start =
     Inr \<lparr>ch = [reviewed_PullRequest_metric],
          failures = (\<lambda>l. if l = ''repo'' then 1 else 0),
          requests = [PullRequestsList ''acme'' ''*'', PullRequestsList ''acme'' ''web'']\<rparr>"
proof -
  have h: "Split ''acme/*'' CHR ''/'' = [''acme'', ''*'']"
    by simp
  note r = broken_resolution
  have i: "Issues_ListByRepo broken_client ''acme'' ''*'' = Inl not_found"
    by (simp add: broken_client_def acme_client_def)
  have p: "PullRequests_List broken_client ''acme'' ''*'' = Inl not_found"
    by (simp add: broken_client_def acme_client_def)
  note t = transport_error_skips_only_that_target [OF h, of broken_client not_found
      "[SearchRepositories ''user:acme'' \<lparr>opts_Page = 0, opts_PerPage = 50\<rparr>,
        SearchRepositories ''user:acme'' \<lparr>opts_Page = 2, opts_PerPage = 50\<rparr>]"
      poll_start "[''acme/web'']"]
  note t1 = t [THEN conjunct1, THEN mp, OF r]
  note a = t1 [THEN conjunct2, THEN conjunct1]
  note b = t1 [THEN conjunct2, THEN conjunct2, THEN conjunct2]
  show ?thesis
    using h r i p a b
    by (simp only: broken_then_web_repos broken_then_web_issues
        broken_then_web_issues_v2 broken_then_web_pulls simp_thms)
qed

subsection \<open>Glob targets\<close>

lemma reported_repos_append [simp]:
  "reported_repos (a @ b) = reported_repos a @ reported_repos b"
  by (simp add: reported_repos_def)

lemma reported_repos_Nil [simp]: "reported_repos [] = []"
  by (simp add: reported_repos_def)

lemma emit_all_append:
  "emit_all (xs @ ys) = Inr ms \<Longrightarrow>
     \<exists>a b. emit_all xs = Inr a \<and> emit_all ys = Inr b \<and> ms = a @ b"
  by (induction xs arbitrary: ms) (auto split: sum.splits)

lemma other_descs:
  "RepoCollector_Forked \<noteq> RepoCollector_Pushed" "RepoCollector_Forks \<noteq> RepoCollector_Pushed"
  "RepoCollector_Network \<noteq> RepoCollector_Pushed" "RepoCollector_Issues \<noteq> RepoCollector_Pushed"
  "RepoCollector_Stargazers \<noteq> RepoCollector_Pushed"
  "RepoCollector_Subscribers \<noteq> RepoCollector_Pushed"
  "RepoCollector_Watchers \<noteq> RepoCollector_Pushed" "RepoCollector_Size \<noteq> RepoCollector_Pushed"
  "RepoCollector_AllowRebaseMerge \<noteq> RepoCollector_Pushed"
  "RepoCollector_AllowSquashMerge \<noteq> RepoCollector_Pushed"
  "RepoCollector_AllowMergeCommit \<noteq> RepoCollector_Pushed"
  "RepoCollector_Archived \<noteq> RepoCollector_Pushed" "RepoCollector_Private \<noteq> RepoCollector_Pushed"
  "RepoCollector_HasIssues \<noteq> RepoCollector_Pushed" "RepoCollector_HasWiki \<noteq> RepoCollector_Pushed"
  "RepoCollector_HasPages \<noteq> RepoCollector_Pushed"
  "RepoCollector_HasProjects \<noteq> RepoCollector_Pushed"
  "RepoCollector_HasDownloads \<noteq> RepoCollector_Pushed"
  "RepoCollector_Created \<noteq> RepoCollector_Pushed" "RepoCollector_Updated \<noteq> RepoCollector_Pushed"
  "RepoCollector_All \<noteq> RepoCollector_Pushed"
  by (simp_all add: RepoCollector_Forked_def RepoCollector_Forks_def RepoCollector_Network_def
      RepoCollector_Issues_def RepoCollector_Stargazers_def RepoCollector_Subscribers_def
      RepoCollector_Watchers_def RepoCollector_Size_def RepoCollector_AllowRebaseMerge_def
      RepoCollector_AllowSquashMerge_def RepoCollector_AllowMergeCommit_def
      RepoCollector_Archived_def RepoCollector_Private_def RepoCollector_HasIssues_def
      RepoCollector_HasWiki_def RepoCollector_HasPages_def RepoCollector_HasProjects_def
      RepoCollector_HasDownloads_def RepoCollector_Created_def RepoCollector_Updated_def
      RepoCollector_All_def RepoCollector_Pushed_def)

lemma gauge_if_bool_other:
  "emit_all (gauge_if_bool f d ls) = Inr a \<Longrightarrow> d \<noteq> RepoCollector_Pushed \<Longrightarrow>
     reported_repos a = []"
  by (auto simp: gauge_if_bool_def MustNewConstMetric_def reported_repos_def
      split: option.splits if_splits)

lemma gauge_if_int_other:
  "emit_all (gauge_if_int f d ls) = Inr a \<Longrightarrow> d \<noteq> RepoCollector_Pushed \<Longrightarrow>
     reported_repos a = []"
  by (auto simp: gauge_if_int_def MustNewConstMetric_def reported_repos_def
      split: option.splits if_splits)

lemma step_bool:
  "emit_all (gauge_if_bool f d ls @ rest) = Inr ms \<Longrightarrow> d \<noteq> RepoCollector_Pushed \<Longrightarrow>
     \<exists>b. emit_all rest = Inr b \<and> reported_repos ms = reported_repos b"
  by (auto dest!: emit_all_append simp: gauge_if_bool_other)

lemma step_int:
  "emit_all (gauge_if_int f d ls @ rest) = Inr ms \<Longrightarrow> d \<noteq> RepoCollector_Pushed \<Longrightarrow>
     \<exists>b. emit_all rest = Inr b \<and> reported_repos ms = reported_repos b"
  by (auto dest!: emit_all_append simp: gauge_if_int_other)

lemma timestamps_reported:
  "emit_all [gauge_time p RepoCollector_Pushed ls, gauge_time cr RepoCollector_Created ls,
      gauge_time u RepoCollector_Updated ls, MustNewConstMetric RepoCollector_All i vs] = Inr b \<Longrightarrow>
     reported_repos b = [ls]"
  using other_descs(19-21)
  by (auto simp: gauge_time_def MustNewConstMetric_def reported_repos_def
      split: option.splits if_splits sum.splits)

lemma RepoCollector_record_reported:
  assumes "RepoCollector_record name owner i rec = Inr ms"
  shows "\<exists>r. rec = Some r \<and> reported_repos ms =
           (if full_name_matches name r then [[owner, string_or_empty (repo_Name r)]] else [])"
proof (cases rec)
  case None
  with assms show ?thesis by (simp add: RepoCollector_record_def)
next
  case (Some r)
  show ?thesis
  proof (cases "repo_FullName r")
    case None
    with assms Some show ?thesis by (simp add: RepoCollector_record_def)
  next
    case full: (Some full_name)
    show ?thesis
    proof (cases "Glob name full_name")
      case False
      with assms Some full show ?thesis
        by (simp add: RepoCollector_record_def full_name_matches_def)
    next
      case True
      show ?thesis
      proof (cases "repo_Name r")
        case None
        with assms Some full True show ?thesis by (simp add: RepoCollector_record_def)
      next
        case nm: (Some record_name)
        from assms Some full True nm have "reported_repos ms = [[owner, record_name]]"
          apply (simp add: RepoCollector_record_def Let_def)
          apply ((drule step_bool step_int, rule other_descs, clarify)+)
          apply (drule timestamps_reported)
          apply simp
          done
        with Some full True nm show ?thesis
          by (simp add: full_name_matches_def string_or_empty_def)
      qed
    qed
  qed
qed

lemma matching_repos_Cons:
  "matching_repos name owner (Some r # records) =
     (if full_name_matches name r then [[owner, string_or_empty (repo_Name r)]] else []) @
     matching_repos name owner records"
  by (simp add: matching_repos_def List.map_filter_simps)

lemma for_range_reported:
  assumes "for_range (RepoCollector_record name owner) i records = Inr ms"
  shows "reported_repos ms = matching_repos name owner records"
  using assms
proof (induction records arbitrary: i ms)
  case Nil
  then show ?case by (simp add: matching_repos_def List.map_filter_simps)
next
  case (Cons rec records)
  from Cons.prems obtain a b where
    a: "RepoCollector_record name owner i rec = Inr a" and
    b: "for_range (RepoCollector_record name owner) (i + 1) records = Inr b" and
    ms: "ms = a @ b"
    by (auto split: sum.splits)
  from RepoCollector_record_reported [OF a] obtain r where
    r: "rec = Some r" "reported_repos a =
      (if full_name_matches name r then [[owner, string_or_empty (repo_Name r)]] else [])"
    by blast
  show ?case
    unfolding ms r(1) matching_repos_Cons
    by (simp only: reported_repos_append r(2) Cons.IH [OF b])
qed

lemma acme_service_resolution:
  "reposByOwnerAndName acme_client ''acme'' ''*-service'' =
     Some (Inr [Some (acme_repo ''auth-service''), Some (acme_repo ''web''),
                Some (acme_repo ''pay-service'')],
           [SearchRepositories ''user:acme'' \<lparr>opts_Page = 0, opts_PerPage = 50\<rparr>])"
  unfolding reposByOwnerAndName_def
  by (subst search_loop.simps) (simp add: Contains_def acme_client_def)

lemma acme_service_target:
  "RepoCollector_target acme_client ''acme/*-service'' poll_start =
     Some (Inr \<lparr>ch = acme_repo_metrics ''auth-service'' 0 @ acme_repo_metrics ''pay-service'' 2,
                failures = (\<lambda>l. 0),
                requests = [SearchRepositories ''user:acme'' \<lparr>opts_Page = 0, opts_PerPage = 50\<rparr>]\<rparr>)"
  by (simp add: RepoCollector_target_def Let_def acme_service_resolution acme_repo_record
      poll_start_def)

lemma acme_service_matching:
  "matching_repos ''acme/*-service'' ''acme''
     [Some (acme_repo ''auth-service''), Some (acme_repo ''web''), Some (acme_repo ''pay-service'')] =
   [[''acme'', ''auth-service''], [''acme'', ''pay-service'']]"
  by (simp add: matching_repos_def List.map_filter_simps full_name_matches_def acme_repo_def
      nil_Repository_def string_or_empty_def)


text \<open>
  Claim C3. For a target whose repository part contains \<open>*\<close>, the repositories the
  collector reports on are exactly those of the resolved records whose full name matches
  the whole target as a glob pattern: resolution returns the owner's repositories found
  by the search, and the loop over them skips every record that does not match. For the
  target \<open>acme/*-service\<close> and the repositories \<open>acme/auth-service\<close>, \<open>acme/web\<close> and
  \<open>acme/pay-service\<close> these are \<open>auth-service\<close> and \<open>pay-service\<close> (the witness).
\<close>

theorem glob_target_reports_matching_repositories:
  assumes "Split name CHR ''/'' = [owner, repo]"
    and "Contains repo CHR ''*''"
    and "reposByOwnerAndName c owner repo = Some (Inr records, calls)"
    and "RepoCollector_target c name st = Some (Inr st')"
  shows "reported_repos (ch st') = reported_repos (ch st) @ matching_repos name owner records"
proof -
  note two = Split_two [OF assms(1)]
  from assms(4) obtain ms where
    ms: "for_range (RepoCollector_record name owner) 0 records = Inr ms"
    and st': "st' = st\<lparr>requests := requests st @ calls, ch := ch st @ ms\<rparr>"
    by (auto simp: RepoCollector_target_def Let_def two assms(3) split: sum.splits)
  show ?thesis
    by (simp add: st' for_range_reported [OF ms])
qed

theorem glob_target_reports_matching_repositories_witness:
  "(Split ''acme/*-service'' CHR ''/'' = [''acme'', ''*-service''] \<and>
    Contains ''*-service'' CHR ''*'' \<and>
    reposByOwnerAndName acme_client ''acme'' ''*-service'' =
      Some (Inr [Some (acme_repo ''auth-service''), Some (acme_repo ''web''),
                 Some (acme_repo ''pay-service'')],
            [SearchRepositories ''user:acme'' \<lparr>opts_Page = 0, opts_PerPage = 50\<rparr>]) \<and>
    RepoCollector_target acme_client ''acme/*-service'' poll_start =
      Some (Inr \<lparr>ch = acme_repo_metrics ''auth-service'' 0 @ acme_repo_metrics ''pay-service'' 2,
                 failures = (\<lambda>l. 0),
                 requests = [SearchRepositories ''user:acme''
                               \<lparr>opts_Page = 0, opts_PerPage = 50\<rparr>]\<rparr>)) \<and>
   reported_repos (acme_repo_metrics ''auth-service'' 0 @ acme_repo_metrics ''pay-service'' 2) =
     [[''acme'', ''auth-service''], [''acme'', ''pay-service'']]"
proof -
  have h1: "Split ''acme/*-service'' CHR ''/'' = [''acme'', ''*-service'']"
    by simp
  have h2: "Contains ''*-service'' CHR ''*''"
    by (simp add: Contains_def)
  note t = glob_target_reports_matching_repositories
    [OF h1 h2 acme_service_resolution acme_service_target]
  have "reported_repos (acme_repo_metrics ''auth-service'' 0 @ acme_repo_metrics ''pay-service'' 2) =
      [[''acme'', ''auth-service''], [''acme'', ''pay-service'']]"
    using t by (simp add: acme_service_matching poll_start_def)
  with h1 h2 acme_service_resolution acme_service_target show ?thesis
    by (intro conjI)
qed

end
